theory Spec2Isabelle
  imports Main "HOL-Library.Word"
begin

section \<open>RuntimeEffectContents::Render (impeller/entity/contents/runtime_effect_contents.cc)\<close>

text \<open>
  A shallow embedding of \<^verbatim>\<open>RuntimeEffectContents::Render\<close>. The function is the only code of
  the runtime-effect path whose body is available; the objects it calls (shader library,
  pipeline library, render pass, host buffer, geometry, clip-restore contents) are declared
  elsewhere. Every call that leaves \<^verbatim>\<open>Render\<close> is therefore either a field of the record
  \<open>Backend\<close> (an arbitrary function of what the call can see) or a definition marked
  \<open>Modelled from the spec\<close>. Every block of \<^verbatim>\<open>Render\<close> returns, beside its
  result and the new state, the list of the calls it made and of its \<^verbatim>\<open>VALIDATION_LOG\<close>
  lines, in order, so that the order of effects can be stated.

  \<^verbatim>\<open>size_t\<close> is 64 bits wide. The two loop counters count elements of a \<^verbatim>\<open>std::vector\<close> and
  cannot wrap; they are \<open>nat\<close>. The product \<^verbatim>\<open>uniform.location * sizeof(float)\<close> is taken
  modulo \<open>2 ^ 64\<close>. Reading outside \<^verbatim>\<open>texture_inputs_\<close> or outside \<^verbatim>\<open>*uniform_data_\<close> is
  undefined behaviour in the source (a failed \<^verbatim>\<open>FML_DCHECK\<close> in debug builds); the model
  returns a \<open>Fault\<close> there. The pointers \<^verbatim>\<open>runtime_stage_\<close> and \<^verbatim>\<open>uniform_data_\<close> are
  taken to be set.
\<close>

subsection \<open>Enumerations and handles\<close>

datatype ShaderStage =
  kUnknown | kVertex | kFragment | kTessellationControl | kTessellationEvaluation | kCompute

datatype RuntimeUniformType =
  kBoolean | kSignedByte | kUnsignedByte | kSignedShort | kUnsignedShort
  | kSignedInt | kUnsignedInt | kSignedInt64 | kUnsignedInt64
  | kHalfFloat | kFloat | kDouble | kSampledImage

datatype CompareFunction =
  kNever | kAlways | kLess | kEqual | kLessEqual | kGreater | kNotEqual | kGreaterEqual

datatype StencilOperation =
  kKeep | kZero | kSetToReferenceValue | kIncrementClamp | kDecrementClamp
  | kInvert | kIncrementWrap | kDecrementWrap

datatype PrimitiveType = kTriangle | kTriangleStrip | kLine | kLineStrip | kPoint

datatype PixelFormat = kDefaultColor | kDefaultStencil

text \<open>Backend objects are opaque to \<^verbatim>\<open>Render\<close>; a handle stands for each.\<close>

type_synonym ShaderFunction = nat
type_synonym Pipeline = nat
type_synonym Texture = nat
type_synonym Sampler = nat
type_synonym SamplerDescriptor = nat
type_synonym VertexBuffer = nat
type_synonym VertexDescriptor = nat
type_synonym Matrix = "8 word list"
type_synonym HostBuffer = "8 word list"

subsection \<open>Structures\<close>

text \<open>\<open>GetSize\<close> holds the value of \<^verbatim>\<open>RuntimeUniformDescription::GetSize()\<close>, whose body is
  declared elsewhere.\<close>

record RuntimeUniformDescription =
  name :: string
  location :: nat
  type :: RuntimeUniformType
  bit_width :: nat
  GetSize :: nat

text \<open>\<open>GetShaderStage\<close> holds \<^verbatim>\<open>ToShaderStage(runtime_stage_->GetShaderStage())\<close>.\<close>

record RuntimeStage =
  GetEntrypoint :: string
  GetShaderStage :: ShaderStage
  GetCodeMapping :: "8 word list"
  GetUniforms :: "RuntimeUniformDescription list"
  IsDirty :: bool

definition SetClean :: "RuntimeStage \<Rightarrow> RuntimeStage" where
  "SetClean rs = rs\<lparr>IsDirty := False\<rparr>"

record TextureInput =
  sampler_descriptor :: SamplerDescriptor
  texture :: Texture

record RuntimeEffectContents =
  uniform_data :: "8 word list"
  texture_inputs :: "TextureInput list"

record Entity =
  GetStencilDepth :: nat
  GetBlendMode :: nat

record GeometryResult =
  geometry_type :: PrimitiveType
  vertex_buffer :: VertexBuffer
  transform :: Matrix
  prevent_overdraw :: bool

record ContentContextOptions =
  sample_count :: nat
  blend_mode :: nat
  stencil_compare :: CompareFunction
  stencil_operation :: StencilOperation
  primitive_type :: PrimitiveType

record ColorAttachmentDescriptor =
  format :: PixelFormat
  blending_enabled :: bool

record PipelineDescriptor =
  desc_label :: string
  vertex_entrypoint :: "ShaderFunction option"
  fragment_entrypoint :: "ShaderFunction option"
  desc_vertex_descriptor :: VertexDescriptor
  color_attachment_0 :: ColorAttachmentDescriptor
  stencil_pixel_format :: PixelFormat
  desc_sample_count :: nat
  desc_blend_mode :: nat
  desc_stencil_compare :: CompareFunction
  desc_stencil_operation :: StencilOperation
  desc_primitive_type :: PrimitiveType

record BufferView =
  view_offset :: nat
  view_length :: nat

record SampledImageSlot =
  image_name :: string
  texture_index :: nat
  image_sampler_index :: nat

record ShaderUniformSlot =
  uniform_name :: string
  ext_res_0 :: nat

text \<open>One constructor for each way \<^verbatim>\<open>Render\<close> binds a resource to the command:
  \<^verbatim>\<open>VS::BindVertInfo(cmd, view)\<close>, and \<^verbatim>\<open>cmd.BindResource\<close> with an image slot or with a
  uniform slot (the metadata argument is always default constructed).\<close>

datatype Binding =
  BindVertInfo BufferView
  | BindSampledImage ShaderStage SampledImageSlot Texture Sampler
  | BindUniform ShaderStage ShaderUniformSlot BufferView

record Command =
  label :: string
  pipeline :: Pipeline
  stencil_reference :: nat
  cmd_vertex_buffer :: VertexBuffer
  bindings :: "Binding list"

record RenderPass =
  transients :: HostBuffer
  commands :: "Command list"

datatype Call =
  CallRemovePipelinesWithEntryPoint ShaderFunction
  | CallUnregisterFunction string ShaderStage
  | CallRegisterFunction string ShaderStage
  | CallSetClean
  | CallGetPositionBuffer
  | CallGetPipeline PipelineDescriptor
  | CallEmplaceUniform Matrix
  | CallEmplace "8 word list" nat nat
  | CallAddCommand Command
  | CallClipRestoreRender Entity
  | VALIDATION_LOG string

type_synonym ShaderLibrary = "((string \<times> ShaderStage) \<times> ShaderFunction) list"
type_synonym PipelineLibrary = "(PipelineDescriptor \<times> Pipeline) list"

record World =
  library :: ShaderLibrary
  pipelines :: PipelineLibrary
  runtime_stage :: RuntimeStage
  pass :: RenderPass

text \<open>What \<^verbatim>\<open>Render\<close> calls and cannot see into. \<open>RegisterFunction\<close> gives the value the
  completion callback receives (\<open>None\<close>: the callback is never run, and \<^verbatim>\<open>future.get()\<close>
  blocks for ever) and the library it leaves. \<open>SetStageInputs\<close> gives the result of
  \<^verbatim>\<open>vertex_descriptor->SetStageInputs(VS::kAllShaderStageInputs)\<close> and the descriptor it
  leaves.\<close>

record Backend =
  RegisterFunction ::
    "string \<Rightarrow> ShaderStage \<Rightarrow> 8 word list \<Rightarrow> ShaderLibrary \<Rightarrow> bool option \<times> ShaderLibrary"
  BuildPipeline :: "PipelineDescriptor \<Rightarrow> Pipeline option"
  GetPositionBuffer :: "Entity \<Rightarrow> RenderPass \<Rightarrow> GeometryResult \<times> RenderPass"
  SetStageInputs :: "bool \<times> VertexDescriptor"
  OptionsFromPassAndEntity :: "RenderPass \<Rightarrow> Entity \<Rightarrow> ContentContextOptions"
  EmplaceUniform :: "Matrix \<Rightarrow> HostBuffer \<Rightarrow> BufferView \<times> HostBuffer"
  GetSampler :: "SamplerDescriptor \<Rightarrow> Sampler"
  DefaultUniformAlignment :: nat
  ClipRestoreRender :: "Entity \<Rightarrow> RenderPass \<Rightarrow> bool \<times> RenderPass"

datatype Fault =
  RegistrationNeverCompletes | TextureInputOutOfRange | UniformDataOutOfRange

text \<open>How a block of \<^verbatim>\<open>Render\<close> ends: control falls through to the next statement, the
  function returns, or the run has no defined behaviour.\<close>

datatype Flow = Continue | Return bool | Crash Fault

subsection \<open>Collaborators modelled from the spec\<close>

text \<open>Modelled from the spec: \<^verbatim>\<open>ShaderLibrary::GetFunction\<close> is missing; the spec gives
  \<^verbatim>\<open>getFunction(entryPoint, stage) -> ShaderFunction|null\<close>, a lookup by the key
  (entry point, stage).\<close>

definition GetFunction :: "ShaderLibrary \<Rightarrow> string \<Rightarrow> ShaderStage \<Rightarrow> ShaderFunction option" where
  "GetFunction lib entrypoint stage = map_of lib (entrypoint, stage)"

text \<open>Modelled from the spec: \<^verbatim>\<open>ShaderLibrary::UnregisterFunction\<close> is missing; the spec gives
  \<^verbatim>\<open>unregisterFunction(entryPoint, stage)\<close>, which removes the function from the registry.\<close>

definition UnregisterFunction :: "ShaderLibrary \<Rightarrow> string \<Rightarrow> ShaderStage \<Rightarrow> ShaderLibrary" where
  "UnregisterFunction lib entrypoint stage = filter (\<lambda>kv. fst kv \<noteq> (entrypoint, stage)) lib"

definition references :: "PipelineDescriptor \<Rightarrow> ShaderFunction \<Rightarrow> bool" where
  "references desc f = (vertex_entrypoint desc = Some f \<or> fragment_entrypoint desc = Some f)"

text \<open>Modelled from the spec: \<^verbatim>\<open>PipelineLibrary::RemovePipelinesWithEntryPoint\<close> is missing;
  the spec's \<^verbatim>\<open>evictReferencing\<close> removes every cached entry whose descriptor's vertex or
  fragment function equals the given function.\<close>

definition RemovePipelinesWithEntryPoint :: "ShaderFunction \<Rightarrow> PipelineLibrary \<Rightarrow> PipelineLibrary" where
  "RemovePipelinesWithEntryPoint f cache = filter (\<lambda>dp. \<not> references (fst dp) f) cache"

text \<open>Modelled from the spec: \<^verbatim>\<open>PipelineLibrary::GetPipeline(desc).Get()\<close> is missing; the
  spec's \<^verbatim>\<open>getOrBuild\<close> is a cache-or-construct operation keyed by structural equality of
  the descriptor, and a construction failure is reported as a failure.\<close>

definition GetPipeline ::
  "Backend \<Rightarrow> PipelineDescriptor \<Rightarrow> PipelineLibrary \<Rightarrow> Pipeline option \<times> PipelineLibrary" where
  "GetPipeline c desc cache =
     (case map_of cache desc of
        Some p \<Rightarrow> (Some p, cache)
      | None \<Rightarrow>
          (case BuildPipeline c desc of
             None \<Rightarrow> (None, cache)
           | Some p \<Rightarrow> (Some p, (desc, p) # cache)))"

text \<open>Modelled from the spec: \<^verbatim>\<open>ContentContextOptions::ApplyToPipelineDescriptor\<close> is missing;
  the spec has the options' stencil configuration and primitive topology become the
  descriptor's.\<close>

definition ApplyToPipelineDescriptor ::
  "ContentContextOptions \<Rightarrow> PipelineDescriptor \<Rightarrow> PipelineDescriptor" where
  "ApplyToPipelineDescriptor options desc =
     desc\<lparr>desc_sample_count := sample_count options,
          desc_blend_mode := blend_mode options,
          desc_stencil_compare := stencil_compare options,
          desc_stencil_operation := stencil_operation options,
          desc_primitive_type := primitive_type options\<rparr>"

text \<open>Modelled from the spec: \<^verbatim>\<open>HostBuffer::Emplace(buffer, length, align)\<close> is missing; the
  spec's \<^verbatim>\<open>emplace(bytes, size, alignment) -> BufferView\<close> allocates the bytes into the
  per-frame arena at the alignment and returns a view (offset and length) into it. The
  arena grows at its end; padding bytes bring the end to the alignment first.\<close>

definition Emplace :: "8 word list \<Rightarrow> nat \<Rightarrow> HostBuffer \<Rightarrow> BufferView \<times> HostBuffer" where
  "Emplace bytes align buf =
     (let pad = (if align = 0 \<or> length buf mod align = 0 then 0
                 else align - length buf mod align)
      in (\<lparr>view_offset = length buf + pad, view_length = length bytes\<rparr>,
          buf @ replicate pad 0 @ bytes))"

text \<open>Modelled from the spec: \<^verbatim>\<open>RenderPass::AddCommand\<close> is missing; the spec's
  \<^verbatim>\<open>addCommand(Command)\<close> submits the command to the pass.\<close>

definition AddCommand :: "Command \<Rightarrow> RenderPass \<Rightarrow> RenderPass" where
  "AddCommand cmd p = p\<lparr>commands := commands p @ [cmd]\<rparr>"

text \<open>\<^verbatim>\<open>VS::kEntrypointName\<close>, from the generated header of the vertex shader.\<close>

definition kEntrypointName :: string where
  "kEntrypointName = ''runtime_effect_vertex_main''"

text \<open>A run of a block: its result, the state it leaves, the calls it made.\<close>

type_synonym 'a Run = "'a \<times> World \<times> Call list"

abbreviation outcome :: "'a Run \<Rightarrow> 'a" where
  "outcome r \<equiv> fst r"

abbreviation final :: "'a Run \<Rightarrow> World" where
  "final r \<equiv> fst (snd r)"

abbreviation trace :: "'a Run \<Rightarrow> Call list" where
  "trace r \<equiv> snd (snd r)"

subsection \<open>Get or register shader (lines 52--92)\<close>

text \<open>Lines 52--61: the lookup, and the eviction when the function is found and the stage is
  dirty. The result is the local \<^verbatim>\<open>function\<close> (\<open>None\<close> for \<^verbatim>\<open>nullptr\<close>).\<close>

definition lookup_shader :: "World \<Rightarrow> ShaderFunction option Run" where
  "lookup_shader w =
     (let rs = runtime_stage w in
      case GetFunction (library w) (GetEntrypoint rs) kFragment of
        None \<Rightarrow> (None, w, [])
      | Some function \<Rightarrow>
          if IsDirty rs then
            (None,
             w\<lparr>pipelines := RemovePipelinesWithEntryPoint function (pipelines w),
               library := UnregisterFunction (library w) (GetEntrypoint rs) kFragment\<rparr>,
             [CallRemovePipelinesWithEntryPoint function,
              CallUnregisterFunction (GetEntrypoint rs) kFragment])
          else (Some function, w, []))"

text \<open>Lines 63--92, the body of \<^verbatim>\<open>if (!function)\<close>.\<close>

definition register_shader :: "Backend \<Rightarrow> World \<Rightarrow> Flow Run" where
  "register_shader c w =
     (let rs = runtime_stage w;
          call = CallRegisterFunction (GetEntrypoint rs) (GetShaderStage rs)
      in case RegisterFunction c (GetEntrypoint rs) (GetShaderStage rs) (GetCodeMapping rs)
                (library w) of
           (None, lib) \<Rightarrow> (Crash RegistrationNeverCompletes, w\<lparr>library := lib\<rparr>, [call])
         | (Some result, lib) \<Rightarrow>
             if \<not> result then
               (Return False, w\<lparr>library := lib\<rparr>,
                [call,
                 VALIDATION_LOG (''Failed to build runtime effect (entry point: ''
                                 @ GetEntrypoint rs @ '')'')])
             else
               (case GetFunction lib (GetEntrypoint rs) kFragment of
                  None \<Rightarrow>
                    (Return False, w\<lparr>library := lib\<rparr>,
                     [call,
                      VALIDATION_LOG
                        (''Failed to fetch runtime effect function immediately after ''
                         @ ''registering it (entry point: '' @ GetEntrypoint rs @ '')'')])
                | Some function \<Rightarrow>
                    (Continue, w\<lparr>library := lib, runtime_stage := SetClean rs\<rparr>,
                     [call, CallSetClean])))"

definition get_or_register_shader :: "Backend \<Rightarrow> World \<Rightarrow> Flow Run" where
  "get_or_register_shader c w =
     (case lookup_shader w of
        (Some function, w1, t1) \<Rightarrow> (Continue, w1, t1)
      | (None, w1, t1) \<Rightarrow>
          (case register_shader c w1 of (r, w2, t2) \<Rightarrow> (r, w2, t1 @ t2)))"

subsection \<open>Get or create runtime stage pipeline (lines 105--134)\<close>

text \<open>Lines 122--127: the options, with the stencil override for overdraw prevention.\<close>

definition render_options ::
  "Backend \<Rightarrow> Entity \<Rightarrow> GeometryResult \<Rightarrow> RenderPass \<Rightarrow> ContentContextOptions" where
  "render_options c entity geometry_result p =
     (let options = OptionsFromPassAndEntity c p entity;
          options = (if prevent_overdraw geometry_result
                     then options\<lparr>stencil_compare := kEqual, stencil_operation := kIncrementClamp\<rparr>
                     else options)
      in options\<lparr>primitive_type := geometry_type geometry_result\<rparr>)"

text \<open>Lines 105--128. The fields that \<open>ApplyToPipelineDescriptor\<close> overwrites start at the
  values of a default constructed descriptor. The state is only read.\<close>

definition make_descriptor ::
  "Backend \<Rightarrow> Entity \<Rightarrow> GeometryResult \<Rightarrow> World \<Rightarrow> PipelineDescriptor \<times> Call list" where
  "make_descriptor c entity geometry_result w =
     (let rs = runtime_stage w;
          (ok, vertex_descriptor) = SetStageInputs c;
          t = (if \<not> ok
               then [VALIDATION_LOG ''Failed to set stage inputs for runtime effect pipeline.'']
               else []);
          desc = \<lparr>desc_label = ''Runtime Stage'',
                  vertex_entrypoint = GetFunction (library w) kEntrypointName kVertex,
                  fragment_entrypoint = GetFunction (library w) (GetEntrypoint rs) kFragment,
                  desc_vertex_descriptor = vertex_descriptor,
                  color_attachment_0 = \<lparr>format = kDefaultColor, blending_enabled = True\<rparr>,
                  stencil_pixel_format = kDefaultStencil,
                  desc_sample_count = 1,
                  desc_blend_mode = 0,
                  desc_stencil_compare = kAlways,
                  desc_stencil_operation = kKeep,
                  desc_primitive_type = kTriangle\<rparr>
      in (ApplyToPipelineDescriptor (render_options c entity geometry_result (pass w)) desc, t))"

subsection \<open>Fragment stage uniforms (lines 154--210)\<close>

text \<open>The locals of \<^verbatim>\<open>Render\<close> that the loop updates.\<close>

record Locals =
  buffer_index :: nat
  sampler_index :: nat
  cmd :: Command

type_synonym Bound = "Flow \<times> Locals \<times> HostBuffer \<times> Call list"

definition BindResource :: "Binding \<Rightarrow> Locals \<Rightarrow> Locals" where
  "BindResource b l = l\<lparr>cmd := (cmd l)\<lparr>bindings := bindings (cmd l) @ [b]\<rparr>\<rparr>"

text \<open>Lines 204--206.\<close>

definition unsupported_uniform :: "RuntimeUniformDescription \<Rightarrow> Locals \<Rightarrow> HostBuffer \<Rightarrow> Bound" where
  "unsupported_uniform uniform l buf =
     (Return True, l, buf,
      [VALIDATION_LOG (''Unsupported uniform type for '' @ name uniform @ ''.'')])"

text \<open>Lines 162--178.\<close>

definition bind_sampled_image ::
  "Backend \<Rightarrow> RuntimeEffectContents \<Rightarrow> RuntimeUniformDescription \<Rightarrow> Locals \<Rightarrow> HostBuffer \<Rightarrow> Bound" where
  "bind_sampled_image c this uniform l buf =
     (if sampler_index l < length (texture_inputs this) then
        (let input = texture_inputs this ! sampler_index l;
             sampler = GetSampler c (sampler_descriptor input);
             image_slot = \<lparr>image_name = name uniform,
                            texture_index = sampler_index l,
                            image_sampler_index = sampler_index l\<rparr>;
             l1 = BindResource (BindSampledImage kFragment image_slot (texture input) sampler) l
         in (Continue, l1\<lparr>sampler_index := sampler_index l1 + 1\<rparr>, buf, []))
      else (Crash TextureInputOutOfRange, l, buf, []))"

text \<open>Lines 179--192.\<close>

definition bind_float ::
  "Backend \<Rightarrow> RuntimeEffectContents \<Rightarrow> RuntimeUniformDescription \<Rightarrow> Locals \<Rightarrow> HostBuffer \<Rightarrow> Bound" where
  "bind_float c this uniform l buf =
     (let alignment = max (bit_width uniform div 8) (DefaultUniformAlignment c);
          start = (location uniform * 4) mod 2 ^ 64
      in if start + GetSize uniform \<le> length (uniform_data this) then
           (let bytes = take (GetSize uniform) (drop start (uniform_data this));
                (buffer_view, buf1) = Emplace bytes alignment buf;
                uniform_slot = \<lparr>uniform_name = name uniform, ext_res_0 = buffer_index l\<rparr>
            in (Continue,
                BindResource (BindUniform kFragment uniform_slot buffer_view) l,
                buf1,
                [CallEmplace bytes (GetSize uniform) alignment]))
         else (Crash UniformDataOutOfRange, l, buf, []))"

text \<open>The \<^verbatim>\<open>switch\<close> of lines 161--207.\<close>

definition bind_uniform ::
  "Backend \<Rightarrow> RuntimeEffectContents \<Rightarrow> RuntimeUniformDescription \<Rightarrow> Locals \<Rightarrow> HostBuffer \<Rightarrow> Bound" where
  "bind_uniform c this uniform l buf =
     (case type uniform of
        kSampledImage \<Rightarrow> bind_sampled_image c this uniform l buf
      | kFloat \<Rightarrow> bind_float c this uniform l buf
      | kBoolean \<Rightarrow> unsupported_uniform uniform l buf
      | kSignedByte \<Rightarrow> unsupported_uniform uniform l buf
      | kUnsignedByte \<Rightarrow> unsupported_uniform uniform l buf
      | kSignedShort \<Rightarrow> unsupported_uniform uniform l buf
      | kUnsignedShort \<Rightarrow> unsupported_uniform uniform l buf
      | kSignedInt \<Rightarrow> unsupported_uniform uniform l buf
      | kUnsignedInt \<Rightarrow> unsupported_uniform uniform l buf
      | kSignedInt64 \<Rightarrow> unsupported_uniform uniform l buf
      | kUnsignedInt64 \<Rightarrow> unsupported_uniform uniform l buf
      | kHalfFloat \<Rightarrow> unsupported_uniform uniform l buf
      | kDouble \<Rightarrow> unsupported_uniform uniform l buf)"

text \<open>The \<^verbatim>\<open>for\<close> loop of lines 156--210 over the transient buffer of the pass: after a
  \<^verbatim>\<open>break\<close> out of the switch, \<^verbatim>\<open>buffer_index++\<close> runs and the loop goes on; a
  \<^verbatim>\<open>return\<close> ends it.\<close>

fun bind_uniforms ::
  "Backend \<Rightarrow> RuntimeEffectContents \<Rightarrow> RuntimeUniformDescription list \<Rightarrow> Locals \<Rightarrow> HostBuffer
     \<Rightarrow> Bound" where
  "bind_uniforms c this [] l buf = (Continue, l, buf, [])"
| "bind_uniforms c this (uniform # rest) l buf =
     (case bind_uniform c this uniform l buf of
        (Continue, l1, buf1, t1) \<Rightarrow>
          (case bind_uniforms c this rest (l1\<lparr>buffer_index := buffer_index l1 + 1\<rparr>) buf1 of
             (r, l2, buf2, t2) \<Rightarrow> (r, l2, buf2, t1 @ t2))
      | (Return b, l1, buf1, t1) \<Rightarrow> (Return b, l1, buf1, t1)
      | (Crash e, l1, buf1, t1) \<Rightarrow> (Crash e, l1, buf1, t1))"

subsection \<open>Render (lines 40--218)\<close>

text \<open>Lines 212--217.\<close>

definition submit ::
  "Backend \<Rightarrow> Entity \<Rightarrow> GeometryResult \<Rightarrow> Command \<Rightarrow> World \<Rightarrow> (Fault + bool) Run" where
  "submit c entity geometry_result command w =
     (let w1 = w\<lparr>pass := AddCommand command (pass w)\<rparr>
      in if prevent_overdraw geometry_result then
           (let (result, p) = ClipRestoreRender c entity (pass w1)
            in (Inr result, w1\<lparr>pass := p\<rparr>,
                [CallAddCommand command, CallClipRestoreRender entity]))
         else (Inr True, w1, [CallAddCommand command]))"

text \<open>Lines 136--217: the command, the vertex stage uniform, the fragment stage uniforms and
  the submission, once the pipeline is there.\<close>

definition draw ::
  "Backend \<Rightarrow> RuntimeEffectContents \<Rightarrow> Entity \<Rightarrow> GeometryResult \<Rightarrow> Pipeline \<Rightarrow> World
     \<Rightarrow> (Fault + bool) Run" where
  "draw c this entity geometry_result pl w =
     (let command = \<lparr>label = ''RuntimeEffectContents'',
                     pipeline = pl,
                     stencil_reference = GetStencilDepth entity,
                     cmd_vertex_buffer = vertex_buffer geometry_result,
                     bindings = []\<rparr>;
          (view, buf) = EmplaceUniform c (transform geometry_result) (transients (pass w));
          t1 = [CallEmplaceUniform (transform geometry_result)];
          l = BindResource (BindVertInfo view)
                \<lparr>buffer_index = 0, sampler_index = 0, cmd = command\<rparr>
      in case bind_uniforms c this (GetUniforms (runtime_stage w)) l buf of
           (Continue, l1, buf1, t2) \<Rightarrow>
             (case submit c entity geometry_result (cmd l1)
                     (w\<lparr>pass := (pass w)\<lparr>transients := buf1\<rparr>\<rparr>) of
                (r, w1, t3) \<Rightarrow> (r, w1, t1 @ t2 @ t3))
         | (Return b, l1, buf1, t2) \<Rightarrow>
             (Inr b, w\<lparr>pass := (pass w)\<lparr>transients := buf1\<rparr>\<rparr>, t1 @ t2)
         | (Crash e, l1, buf1, t2) \<Rightarrow>
             (Inl e, w\<lparr>pass := (pass w)\<lparr>transients := buf1\<rparr>\<rparr>, t1 @ t2))"

text \<open>Lines 98--134 and the call of the rest: geometry, descriptor, pipeline.\<close>

definition render_with_shader ::
  "Backend \<Rightarrow> RuntimeEffectContents \<Rightarrow> Entity \<Rightarrow> World \<Rightarrow> (Fault + bool) Run" where
  "render_with_shader c this entity w =
     (let (geometry_result, p) = GetPositionBuffer c entity (pass w);
          w1 = w\<lparr>pass := p\<rparr>;
          (desc, t1) = make_descriptor c entity geometry_result w1;
          (pl, cache) = GetPipeline c desc (pipelines w1);
          w2 = w1\<lparr>pipelines := cache\<rparr>;
          t = CallGetPositionBuffer # t1 @ [CallGetPipeline desc]
      in case pl of
           None \<Rightarrow>
             (Inr False, w2,
              t @ [VALIDATION_LOG ''Failed to get or create runtime effect pipeline.''])
         | Some pl \<Rightarrow>
             (case draw c this entity geometry_result pl w2 of
                (r, w3, t2) \<Rightarrow> (r, w3, t @ t2)))"

definition Render ::
  "Backend \<Rightarrow> RuntimeEffectContents \<Rightarrow> Entity \<Rightarrow> World \<Rightarrow> (Fault + bool) Run" where
  "Render c this entity w =
     (case get_or_register_shader c w of
        (Continue, w1, t1) \<Rightarrow>
          (case render_with_shader c this entity w1 of (r, w2, t2) \<Rightarrow> (r, w2, t1 @ t2))
      | (Return b, w1, t1) \<Rightarrow> (Inr b, w1, t1)
      | (Crash e, w1, t1) \<Rightarrow> (Inl e, w1, t1))"

subsection \<open>Notions used to state the properties\<close>

abbreviation flow :: "Bound \<Rightarrow> Flow" where
  "flow b \<equiv> fst b"

abbreviation locals :: "Bound \<Rightarrow> Locals" where
  "locals b \<equiv> fst (snd b)"

abbreviation buffer :: "Bound \<Rightarrow> HostBuffer" where
  "buffer b \<equiv> fst (snd (snd b))"

abbreviation emitted :: "Bound \<Rightarrow> Call list" where
  "emitted b \<equiv> snd (snd (snd b))"

text \<open>The calls by the block they belong to.\<close>

fun shader_call :: "Call \<Rightarrow> bool" where
  "shader_call (CallRemovePipelinesWithEntryPoint f) = True"
| "shader_call (CallUnregisterFunction e s) = True"
| "shader_call (CallRegisterFunction e s) = True"
| "shader_call CallSetClean = True"
| "shader_call x = False"

fun pipeline_call :: "Call \<Rightarrow> bool" where
  "pipeline_call (CallGetPipeline d) = True"
| "pipeline_call x = False"

fun binding_call :: "Call \<Rightarrow> bool" where
  "binding_call (CallEmplace bytes n a) = True"
| "binding_call x = False"

fun submit_call :: "Call \<Rightarrow> bool" where
  "submit_call (CallAddCommand command) = True"
| "submit_call (CallClipRestoreRender entity) = True"
| "submit_call x = False"

fun log_line :: "Call \<Rightarrow> bool" where
  "log_line (VALIDATION_LOG s) = True"
| "log_line x = False"

text \<open>The number of sampled-image entries of a layout.\<close>

definition num_sampled :: "RuntimeUniformDescription list \<Rightarrow> nat" where
  "num_sampled us = length (filter (\<lambda>u. type u = kSampledImage) us)"

text \<open>The number of float entries of a layout.\<close>

definition num_float :: "RuntimeUniformDescription list \<Rightarrow> nat" where
  "num_float us = length (filter (\<lambda>u. type u = kFloat) us)"

text \<open>The alignment and the slice of the uniform data that the spec gives for a float entry:
  \<^verbatim>\<open>max(bitWidth / 8, backendMinimumUniformAlignment)\<close>, and the bytes from offset
  \<^verbatim>\<open>location * 4\<close> for the entry's size.\<close>

definition float_alignment :: "Backend \<Rightarrow> RuntimeUniformDescription \<Rightarrow> nat" where
  "float_alignment c u = max (bit_width u div 8) (DefaultUniformAlignment c)"

definition float_slice :: "RuntimeEffectContents \<Rightarrow> RuntimeUniformDescription \<Rightarrow> 8 word list" where
  "float_slice this u = take (GetSize u) (drop (location u * 4) (uniform_data this))"

text \<open>The bytes a float entry names lie inside the uniform data.\<close>

definition float_in_range :: "RuntimeEffectContents \<Rightarrow> RuntimeUniformDescription \<Rightarrow> bool" where
  "float_in_range this u =
     ((location u * 4) mod 2 ^ 64 + GetSize u \<le> length (uniform_data this))"

text \<open>An entry that the loop binds without leaving it: a sampled image, or a float whose
  bytes are there.\<close>

definition bindable :: "RuntimeEffectContents \<Rightarrow> RuntimeUniformDescription \<Rightarrow> bool" where
  "bindable this u =
     (type u = kSampledImage \<or> (type u = kFloat \<and> float_in_range this u))"

definition unsupported :: "RuntimeUniformDescription \<Rightarrow> bool" where
  "unsupported u = (type u \<noteq> kSampledImage \<and> type u \<noteq> kFloat)"

text \<open>Binding \<open>b\<close> is what the entry \<open>u\<close> gets when the counters stand at \<open>bi\<close> and \<open>si\<close>.\<close>

fun bound_at ::
  "RuntimeEffectContents \<Rightarrow> RuntimeUniformDescription \<Rightarrow> nat \<Rightarrow> nat \<Rightarrow> Binding \<Rightarrow> bool" where
  "bound_at this u bi si (BindSampledImage stage slot tex smp) =
     (type u = kSampledImage \<and> stage = kFragment \<and> image_name slot = name u
      \<and> texture_index slot = si \<and> image_sampler_index slot = si
      \<and> tex = texture (texture_inputs this ! si))"
| "bound_at this u bi si (BindUniform stage slot view) =
     (type u = kFloat \<and> stage = kFragment \<and> uniform_name slot = name u
      \<and> ext_res_0 slot = bi \<and> view_length view = GetSize u)"
| "bound_at this u bi si (BindVertInfo view) = False"

text \<open>The values \<^verbatim>\<open>Render\<close> computes on its way, as functions of the call's inputs: the
  state after the shader block, the geometry and the pass that resolving it leaves, the
  options, the descriptor, the pipeline and the state after the pipeline lookup, the locals
  before the loop (lines 136--155), the run of the loop, and the calls up to the pipeline
  lookup.\<close>

definition shader_state :: "Backend \<Rightarrow> World \<Rightarrow> World" where
  "shader_state c w = final (get_or_register_shader c w)"

definition render_geometry :: "Backend \<Rightarrow> Entity \<Rightarrow> World \<Rightarrow> GeometryResult" where
  "render_geometry c entity w = fst (GetPositionBuffer c entity (pass w))"

definition geometry_pass :: "Backend \<Rightarrow> Entity \<Rightarrow> World \<Rightarrow> RenderPass" where
  "geometry_pass c entity w = snd (GetPositionBuffer c entity (pass w))"

definition render_options_of :: "Backend \<Rightarrow> Entity \<Rightarrow> World \<Rightarrow> ContentContextOptions" where
  "render_options_of c entity w =
     render_options c entity (render_geometry c entity w) (geometry_pass c entity w)"

definition render_descriptor :: "Backend \<Rightarrow> Entity \<Rightarrow> World \<Rightarrow> PipelineDescriptor" where
  "render_descriptor c entity w =
     fst (make_descriptor c entity (render_geometry c entity w)
            ((shader_state c w)\<lparr>pass := geometry_pass c entity w\<rparr>))"

definition render_pipeline :: "Backend \<Rightarrow> Entity \<Rightarrow> World \<Rightarrow> Pipeline option" where
  "render_pipeline c entity w =
     fst (GetPipeline c (render_descriptor c entity w) (pipelines (shader_state c w)))"

definition pipeline_state :: "Backend \<Rightarrow> Entity \<Rightarrow> World \<Rightarrow> World" where
  "pipeline_state c entity w =
     (shader_state c w)
       \<lparr>pass := geometry_pass c entity w,
        pipelines :=
          snd (GetPipeline c (render_descriptor c entity w) (pipelines (shader_state c w)))\<rparr>"

definition pipeline_trace :: "Backend \<Rightarrow> Entity \<Rightarrow> World \<Rightarrow> Call list" where
  "pipeline_trace c entity w =
     trace (get_or_register_shader c w)
     @ CallGetPositionBuffer
       # snd (make_descriptor c entity (render_geometry c entity w)
                ((shader_state c w)\<lparr>pass := geometry_pass c entity w\<rparr>))
     @ [CallGetPipeline (render_descriptor c entity w)]"

definition initial_locals :: "Backend \<Rightarrow> Entity \<Rightarrow> World \<Rightarrow> Pipeline \<Rightarrow> Locals" where
  "initial_locals c entity w pl =
     BindResource
       (BindVertInfo
          (fst (EmplaceUniform c (transform (render_geometry c entity w))
                  (transients (geometry_pass c entity w)))))
       \<lparr>buffer_index = 0, sampler_index = 0,
        cmd = \<lparr>label = ''RuntimeEffectContents'',
               pipeline = pl,
               stencil_reference = GetStencilDepth entity,
               cmd_vertex_buffer = vertex_buffer (render_geometry c entity w),
               bindings = []\<rparr>\<rparr>"

definition render_binding ::
  "Backend \<Rightarrow> RuntimeEffectContents \<Rightarrow> Entity \<Rightarrow> World \<Rightarrow> Pipeline \<Rightarrow> Bound" where
  "render_binding c this entity w pl =
     bind_uniforms c this (GetUniforms (runtime_stage w)) (initial_locals c entity w pl)
       (snd (EmplaceUniform c (transform (render_geometry c entity w))
               (transients (geometry_pass c entity w))))"

definition bound_state ::
  "Backend \<Rightarrow> RuntimeEffectContents \<Rightarrow> Entity \<Rightarrow> World \<Rightarrow> Pipeline \<Rightarrow> World" where
  "bound_state c this entity w pl =
     (pipeline_state c entity w)
       \<lparr>pass := (geometry_pass c entity w)
                  \<lparr>transients := buffer (render_binding c this entity w pl)\<rparr>\<rparr>"

definition bound_trace ::
  "Backend \<Rightarrow> RuntimeEffectContents \<Rightarrow> Entity \<Rightarrow> World \<Rightarrow> Pipeline \<Rightarrow> Call list" where
  "bound_trace c this entity w pl =
     pipeline_trace c entity w
     @ CallEmplaceUniform (transform (render_geometry c entity w))
       # emitted (render_binding c this entity w pl)"

text \<open>The answer of the backend compiler to the registration that \<^verbatim>\<open>Render\<close> requests
  (lines 67--75), and the condition under which it is requested (line 63).\<close>

definition registration :: "Backend \<Rightarrow> World \<Rightarrow> bool option \<times> ShaderLibrary" where
  "registration c w =
     RegisterFunction c (GetEntrypoint (runtime_stage w)) (GetShaderStage (runtime_stage w))
       (GetCodeMapping (runtime_stage w)) (library (final (lookup_shader w)))"

definition needs_registration :: "World \<Rightarrow> bool" where
  "needs_registration w =
     (GetFunction (library w) (GetEntrypoint (runtime_stage w)) kFragment = None
      \<or> IsDirty (runtime_stage w))"

subsection \<open>Concrete inputs\<close>

definition ex_backend :: Backend where
  "ex_backend =
     \<lparr>RegisterFunction =
        (\<lambda>entrypoint stage code lib. (Some True, ((entrypoint, stage), 7) # lib)),
      BuildPipeline = (\<lambda>desc. Some 42),
      GetPositionBuffer = (\<lambda>entity p.
         (\<lparr>geometry_type = kTriangleStrip, vertex_buffer = 5, transform = [1, 0, 0, 1],
           prevent_overdraw = False\<rparr>, p)),
      SetStageInputs = (True, 1),
      OptionsFromPassAndEntity = (\<lambda>p entity.
         \<lparr>sample_count = 1, blend_mode = GetBlendMode entity, stencil_compare = kAlways,
          stencil_operation = kKeep, primitive_type = kTriangle\<rparr>),
      EmplaceUniform = (\<lambda>m buf. Emplace m 16 buf),
      GetSampler = (\<lambda>d. d + 100),
      DefaultUniformAlignment = 16,
      ClipRestoreRender = (\<lambda>entity p. (False, p))\<rparr>"

definition ex_overdraw :: Backend where
  "ex_overdraw =
     ex_backend\<lparr>GetPositionBuffer := (\<lambda>entity p.
         (\<lparr>geometry_type = kTriangleStrip, vertex_buffer = 5, transform = [1, 0, 0, 1],
           prevent_overdraw = True\<rparr>, p))\<rparr>"

definition ex_uniform :: "string \<Rightarrow> nat \<Rightarrow> RuntimeUniformType \<Rightarrow> RuntimeUniformDescription" where
  "ex_uniform n loc ty = \<lparr>name = n, location = loc, type = ty, bit_width = 32, GetSize = 4\<rparr>"

definition ex_stage :: "RuntimeUniformDescription list \<Rightarrow> bool \<Rightarrow> RuntimeStage" where
  "ex_stage us d =
     \<lparr>GetEntrypoint = ''main'', GetShaderStage = kFragment, GetCodeMapping = [1, 2, 3],
      GetUniforms = us, IsDirty = d\<rparr>"

definition ex_world :: "RuntimeUniformDescription list \<Rightarrow> bool \<Rightarrow> World" where
  "ex_world us d =
     \<lparr>library = [((''main'', kFragment), 3), ((kEntrypointName, kVertex), 1)],
      pipelines = [],
      runtime_stage = ex_stage us d,
      pass = \<lparr>transients = [], commands = []\<rparr>\<rparr>"

definition ex_contents :: RuntimeEffectContents where
  "ex_contents =
     \<lparr>uniform_data = [1, 2, 3, 4, 5, 6, 7, 8],
      texture_inputs = [\<lparr>sampler_descriptor = 2, texture = 9\<rparr>]\<rparr>"

definition ex_entity :: Entity where
  "ex_entity = \<lparr>GetStencilDepth = 3, GetBlendMode = 0\<rparr>"

definition ex_locals :: Locals where
  "ex_locals =
     \<lparr>buffer_index = 0, sampler_index = 0,
      cmd = \<lparr>label = ''RuntimeEffectContents'', pipeline = 42, stencil_reference = 3,
             cmd_vertex_buffer = 5, bindings = []\<rparr>\<rparr>"

definition ex_failing :: Backend where
  "ex_failing = ex_backend\<lparr>RegisterFunction := (\<lambda>entrypoint stage code lib. (Some False, lib))\<rparr>"

definition ex_unregistered :: World where
  "ex_unregistered = (ex_world [] False)\<lparr>library := []\<rparr>"

definition ex_vertex_stage :: World where
  "ex_vertex_stage =
     ex_unregistered\<lparr>runtime_stage := (ex_stage [] False)\<lparr>GetShaderStage := kVertex\<rparr>\<rparr>"

definition ex_command :: Command where
  "ex_command =
     \<lparr>label = ''RuntimeEffectContents'', pipeline = 42, stencil_reference = 3,
      cmd_vertex_buffer = 5,
      bindings =
        [BindVertInfo \<lparr>view_offset = 0, view_length = 4\<rparr>,
         BindUniform kFragment \<lparr>uniform_name = ''a'', ext_res_0 = 0\<rparr>
           \<lparr>view_offset = 16, view_length = 4\<rparr>]\<rparr>"

definition ex_inputs_fail :: Backend where
  "ex_inputs_fail = ex_backend\<lparr>SetStageInputs := (False, 1)\<rparr>"

definition ex_stale :: World where
  "ex_stale =
     (ex_world [] True)
       \<lparr>pipelines :=
          [(\<lparr>desc_label = ''Runtime Stage'', vertex_entrypoint = Some 1,
             fragment_entrypoint = Some 3, desc_vertex_descriptor = 1,
             color_attachment_0 = \<lparr>format = kDefaultColor, blending_enabled = True\<rparr>,
             stencil_pixel_format = kDefaultStencil, desc_sample_count = 1,
             desc_blend_mode = 0, desc_stencil_compare = kAlways,
             desc_stencil_operation = kKeep, desc_primitive_type = kTriangleStrip\<rparr>, 41)]\<rparr>"

definition ex_reregister :: Backend where
  "ex_reregister =
     ex_backend\<lparr>RegisterFunction :=
        (\<lambda>entrypoint stage code lib. (Some True, ((entrypoint, stage), 3) # lib))\<rparr>"

definition ex_float :: RuntimeUniformDescription where
  "ex_float = ex_uniform ''b'' 1 kFloat"

definition ex_truncated :: World where
  "ex_truncated =
     ex_world [ex_uniform ''a'' 0 kFloat, ex_uniform ''flag'' 1 kBoolean, ex_uniform ''b'' 1 kFloat]
       False"

definition ex_interleaved :: "RuntimeUniformDescription list" where
  "ex_interleaved =
     [ex_uniform ''a'' 0 kFloat, ex_uniform ''tex'' 0 kSampledImage, ex_uniform ''b'' 1 kFloat]"

section \<open>Properties\<close>

subsection \<open>The shader block\<close>

lemma lookup_shader_miss:
  "GetFunction (library w) (GetEntrypoint (runtime_stage w)) kFragment = None
   \<Longrightarrow> lookup_shader w = (None, w, [])"
  by (simp add: lookup_shader_def)

lemma lookup_shader_clean:
  "GetFunction (library w) (GetEntrypoint (runtime_stage w)) kFragment = Some f
   \<Longrightarrow> \<not> IsDirty (runtime_stage w) \<Longrightarrow> lookup_shader w = (Some f, w, [])"
  by (simp add: lookup_shader_def)

lemma lookup_shader_dirty:
  "GetFunction (library w) (GetEntrypoint (runtime_stage w)) kFragment = Some f
   \<Longrightarrow> IsDirty (runtime_stage w)
   \<Longrightarrow> lookup_shader w =
         (None,
          w\<lparr>pipelines := RemovePipelinesWithEntryPoint f (pipelines w),
            library := UnregisterFunction (library w) (GetEntrypoint (runtime_stage w)) kFragment\<rparr>,
          [CallRemovePipelinesWithEntryPoint f,
           CallUnregisterFunction (GetEntrypoint (runtime_stage w)) kFragment])"
  by (simp add: lookup_shader_def Let_def)

lemma lookup_shader_None_iff:
  "outcome (lookup_shader w) = None \<longleftrightarrow>
   GetFunction (library w) (GetEntrypoint (runtime_stage w)) kFragment = None
   \<or> IsDirty (runtime_stage w)"
  by (simp add: lookup_shader_def Let_def split: option.splits)

lemma lookup_shader_keeps:
  "runtime_stage (final (lookup_shader w)) = runtime_stage w"
  "pass (final (lookup_shader w)) = pass w"
  "set (pipelines (final (lookup_shader w))) \<subseteq> set (pipelines w)"
  by (auto simp add: lookup_shader_def Let_def RemovePipelinesWithEntryPoint_def
      split: option.splits)

lemma lookup_shader_trace: "\<forall>x \<in> set (trace (lookup_shader w)). shader_call x"
  by (simp add: lookup_shader_def Let_def split: option.splits)

lemma register_shader_keeps:
  "pass (final (register_shader c w)) = pass w"
  "pipelines (final (register_shader c w)) = pipelines w"
  "GetUniforms (runtime_stage (final (register_shader c w))) = GetUniforms (runtime_stage w)"
  "GetEntrypoint (runtime_stage (final (register_shader c w))) = GetEntrypoint (runtime_stage w)"
  "library (final (register_shader c w)) =
     snd (RegisterFunction c (GetEntrypoint (runtime_stage w)) (GetShaderStage (runtime_stage w))
            (GetCodeMapping (runtime_stage w)) (library w))"
  by (simp_all add: register_shader_def Let_def SetClean_def split: prod.splits option.splits)

lemma register_shader_trace:
  "\<forall>x \<in> set (trace (register_shader c w)). shader_call x \<or> log_line x"
  by (simp add: register_shader_def Let_def split: prod.splits option.splits)

lemma get_or_register_shader_unfold:
  "get_or_register_shader c w =
     (if outcome (lookup_shader w) = None
      then (outcome (register_shader c (final (lookup_shader w))),
            final (register_shader c (final (lookup_shader w))),
            trace (lookup_shader w) @ trace (register_shader c (final (lookup_shader w))))
      else (Continue, w, []))"
  by (simp add: get_or_register_shader_def lookup_shader_def Let_def
      split: option.splits prod.splits)

lemma get_or_register_shader_keeps:
  "pass (final (get_or_register_shader c w)) = pass w"
  "set (pipelines (final (get_or_register_shader c w))) \<subseteq> set (pipelines w)"
  "GetUniforms (runtime_stage (final (get_or_register_shader c w))) = GetUniforms (runtime_stage w)"
  "GetEntrypoint (runtime_stage (final (get_or_register_shader c w)))
     = GetEntrypoint (runtime_stage w)"
  using lookup_shader_keeps [of w]
  by (simp_all add: get_or_register_shader_unfold register_shader_keeps)

lemma get_or_register_shader_trace:
  "\<forall>x \<in> set (trace (get_or_register_shader c w)). shader_call x \<or> log_line x"
  using lookup_shader_trace [of w] register_shader_trace [of c "final (lookup_shader w)"]
  by (auto simp add: get_or_register_shader_unfold)

subsection \<open>The binding loop\<close>

lemma num_sampled_simps [simp]:
  "num_sampled [] = 0"
  "num_sampled (u # us) = (if type u = kSampledImage then 1 else 0) + num_sampled us"
  "num_sampled (us @ vs) = num_sampled us + num_sampled vs"
  by (simp_all add: num_sampled_def)

lemmas bind_defs =
  bind_uniform_def bind_sampled_image_def bind_float_def unsupported_uniform_def
  BindResource_def Emplace_def Let_def

lemma bind_uniform_emitted:
  "\<forall>x \<in> set (emitted (bind_uniform c this u l buf)). binding_call x \<or> log_line x"
  by (cases "type u") (simp_all add: bind_defs)

lemma bind_uniforms_step:
  "bind_uniforms c this (u # us) l buf =
     (if flow (bind_uniform c this u l buf) = Continue
      then (let b = bind_uniform c this u l buf;
                r = bind_uniforms c this us
                      ((locals b)\<lparr>buffer_index := buffer_index (locals b) + 1\<rparr>) (buffer b)
            in (flow r, locals r, buffer r, emitted b @ emitted r))
      else bind_uniform c this u l buf)"
  by (simp add: Let_def split: prod.splits Flow.splits)

lemma bind_uniforms_emitted:
  "\<forall>x \<in> set (emitted (bind_uniforms c this us l buf)). binding_call x \<or> log_line x"
proof (induction us arbitrary: l buf)
  case Nil
  show ?case by simp
next
  case (Cons u us)
  show ?case
    using bind_uniform_emitted [of c this u l buf] Cons.IH
    by (auto simp add: bind_uniforms_step Let_def simp del: bind_uniforms.simps)
qed

lemma bind_uniform_sampler_index:
  "flow (bind_uniform c this u l buf) = Continue \<Longrightarrow>
   sampler_index (locals (bind_uniform c this u l buf)) =
     sampler_index l + (if type u = kSampledImage then 1 else 0)"
  by (cases "type u") (simp_all add: bind_defs split: if_splits)

lemma bind_uniform_no_texture_fault:
  "sampler_index l + (if type u = kSampledImage then 1 else 0) \<le> length (texture_inputs this)
   \<Longrightarrow> flow (bind_uniform c this u l buf) \<noteq> Crash TextureInputOutOfRange"
  by (cases "type u") (simp_all add: bind_defs split: if_splits)

lemma bind_uniforms_no_texture_fault:
  "sampler_index l + num_sampled us \<le> length (texture_inputs this)
   \<Longrightarrow> flow (bind_uniforms c this us l buf) \<noteq> Crash TextureInputOutOfRange"
proof (induction us arbitrary: l buf)
  case Nil
  show ?case by simp
next
  case (Cons u us)
  let ?b = "bind_uniform c this u l buf"
  have here: "flow ?b \<noteq> Crash TextureInputOutOfRange"
    using bind_uniform_no_texture_fault [of l u this c buf] Cons.prems by simp
  show ?case
  proof (cases "flow ?b = Continue")
    case True
    have "sampler_index (locals ?b) = sampler_index l + (if type u = kSampledImage then 1 else 0)"
      using bind_uniform_sampler_index [OF True] .
    then have "sampler_index ((locals ?b)\<lparr>buffer_index := buffer_index (locals ?b) + 1\<rparr>)
                 + num_sampled us \<le> length (texture_inputs this)"
      using Cons.prems by simp
    from Cons.IH [OF this, of "buffer ?b"] show ?thesis
      using True by (simp add: bind_uniforms_step Let_def del: bind_uniforms.simps)
  next
    case False
    with here show ?thesis
      by (simp add: bind_uniforms_step del: bind_uniforms.simps)
  qed
qed

subsection \<open>The paths of Render\<close>

lemma Render_unfold:
  "Render c this entity w =
     (case outcome (get_or_register_shader c w) of
        Return b \<Rightarrow> (Inr b, shader_state c w, trace (get_or_register_shader c w))
      | Crash e \<Rightarrow> (Inl e, shader_state c w, trace (get_or_register_shader c w))
      | Continue \<Rightarrow>
          (case render_pipeline c entity w of
             None \<Rightarrow>
               (Inr False, pipeline_state c entity w,
                pipeline_trace c entity w
                @ [VALIDATION_LOG ''Failed to get or create runtime effect pipeline.''])
           | Some pl \<Rightarrow>
               (case flow (render_binding c this entity w pl) of
                  Return b \<Rightarrow> (Inr b, bound_state c this entity w pl, bound_trace c this entity w pl)
                | Crash e \<Rightarrow> (Inl e, bound_state c this entity w pl, bound_trace c this entity w pl)
                | Continue \<Rightarrow>
                    (let s = submit c entity (render_geometry c entity w)
                               (cmd (locals (render_binding c this entity w pl)))
                               (bound_state c this entity w pl)
                     in (outcome s, final s, bound_trace c this entity w pl @ trace s)))))"
  by (simp add: Render_def render_with_shader_def draw_def shader_state_def render_geometry_def
      geometry_pass_def render_descriptor_def render_pipeline_def pipeline_state_def
      pipeline_trace_def initial_locals_def render_binding_def bound_state_def bound_trace_def
      get_or_register_shader_keeps(1,3)
      Let_def case_prod_beta
      split: Flow.split option.split)

lemma submit_outcome_not_fault: "outcome (submit c entity g command w) \<noteq> Inl e"
  by (simp add: submit_def Let_def case_prod_beta)

lemma register_shader_fault:
  "outcome (register_shader c w) = Crash e \<Longrightarrow> e = RegistrationNeverCompletes"
  by (auto simp add: register_shader_def Let_def split: prod.splits option.splits if_splits)

lemma get_or_register_shader_fault:
  "outcome (get_or_register_shader c w) = Crash e \<Longrightarrow> e = RegistrationNeverCompletes"
  using register_shader_fault [of c "final (lookup_shader w)" e]
  by (simp add: get_or_register_shader_unfold split: if_splits)

lemma initial_locals_indices [simp]:
  "buffer_index (initial_locals c entity w pl) = 0"
  "sampler_index (initial_locals c entity w pl) = 0"
  by (simp_all add: initial_locals_def BindResource_def)

text \<open>
  C10: when the texture inputs are at least as many as the sampled-image entries of the
  layout, every read \<^verbatim>\<open>texture_inputs_[sampler_index]\<close> of the binding loop is in bounds: the
  loop started with \<^verbatim>\<open>sampler_index = 0\<close> never takes the out-of-range branch, and neither
  does \<^verbatim>\<open>Render\<close>.
\<close>

theorem texture_inputs_in_bounds:
  assumes "num_sampled (GetUniforms (runtime_stage w)) \<le> length (texture_inputs this)"
  shows "outcome (Render c this entity w) \<noteq> Inl TextureInputOutOfRange
         \<and> (\<forall>l buf. sampler_index l = 0 \<longrightarrow>
               flow (bind_uniforms c this (GetUniforms (runtime_stage w)) l buf)
                 \<noteq> Crash TextureInputOutOfRange)"
proof
  have loop: "flow (bind_uniforms c this (GetUniforms (runtime_stage w)) l buf)
                \<noteq> Crash TextureInputOutOfRange" if "sampler_index l = 0" for l buf
    using bind_uniforms_no_texture_fault [of l "GetUniforms (runtime_stage w)" this c buf]
      assms that by simp
  show "\<forall>l buf. sampler_index l = 0 \<longrightarrow>
          flow (bind_uniforms c this (GetUniforms (runtime_stage w)) l buf)
            \<noteq> Crash TextureInputOutOfRange"
    using loop by blast
  have bound: "flow (render_binding c this entity w pl) \<noteq> Crash TextureInputOutOfRange" for pl
    unfolding render_binding_def by (rule loop) simp
  show "outcome (Render c this entity w) \<noteq> Inl TextureInputOutOfRange"
    using bound get_or_register_shader_fault [of c w TextureInputOutOfRange]
    by (auto simp add: Render_unfold Let_def submit_outcome_not_fault
        split: Flow.splits option.splits)
qed

theorem texture_inputs_in_bounds_witness:
  "num_sampled (GetUniforms (runtime_stage (ex_world [ex_uniform ''tex'' 0 kSampledImage] False)))
     \<le> length (texture_inputs ex_contents)
   \<and> outcome (Render ex_backend ex_contents ex_entity
                 (ex_world [ex_uniform ''tex'' 0 kSampledImage] False))
       \<noteq> Inl TextureInputOutOfRange
   \<and> flow (bind_uniforms ex_backend ex_contents
              (GetUniforms (runtime_stage (ex_world [ex_uniform ''tex'' 0 kSampledImage] False)))
              ex_locals [])
       \<noteq> Crash TextureInputOutOfRange"
proof -
  have h: "num_sampled
             (GetUniforms (runtime_stage (ex_world [ex_uniform ''tex'' 0 kSampledImage] False)))
           \<le> length (texture_inputs ex_contents)"
    by (simp add: ex_world_def ex_stage_def ex_uniform_def ex_contents_def)
  have z: "sampler_index ex_locals = 0"
    by (simp add: ex_locals_def)
  show ?thesis
    using h z texture_inputs_in_bounds [OF h, of ex_backend ex_entity] by blast
qed

subsection \<open>What the later blocks leave alone\<close>

lemma make_descriptor_trace:
  "\<forall>x \<in> set (snd (make_descriptor c entity g w)). log_line x"
  by (simp add: make_descriptor_def Let_def case_prod_beta)

lemma submit_keeps:
  "runtime_stage (final (submit c entity g command w)) = runtime_stage w"
  "library (final (submit c entity g command w)) = library w"
  "pipelines (final (submit c entity g command w)) = pipelines w"
  by (simp_all add: submit_def Let_def case_prod_beta)

lemma submit_trace:
  "trace (submit c entity g command w) =
     (if prevent_overdraw g then [CallAddCommand command, CallClipRestoreRender entity]
      else [CallAddCommand command])"
  by (simp add: submit_def Let_def case_prod_beta)

lemma pipeline_state_keeps [simp]:
  "runtime_stage (pipeline_state c entity w) = runtime_stage (shader_state c w)"
  "library (pipeline_state c entity w) = library (shader_state c w)"
  "pass (pipeline_state c entity w) = geometry_pass c entity w"
  by (simp_all add: pipeline_state_def)

lemma bound_state_keeps [simp]:
  "runtime_stage (bound_state c this entity w pl) = runtime_stage (shader_state c w)"
  "library (bound_state c this entity w pl) = library (shader_state c w)"
  "pipelines (bound_state c this entity w pl) = pipelines (pipeline_state c entity w)"
  by (simp_all add: bound_state_def)

lemma Render_keeps:
  "runtime_stage (final (Render c this entity w)) = runtime_stage (shader_state c w)"
  "library (final (Render c this entity w)) = library (shader_state c w)"
  by (simp_all add: Render_unfold Let_def submit_keeps split: Flow.split option.split)

lemma log_line_only:
  "log_line x \<Longrightarrow> \<not> shader_call x \<and> \<not> pipeline_call x \<and> \<not> binding_call x \<and> \<not> submit_call x"
  by (cases x) simp_all

lemma binding_call_only:
  "binding_call x \<Longrightarrow> \<not> shader_call x \<and> \<not> pipeline_call x \<and> \<not> submit_call x \<and> \<not> log_line x"
  by (cases x) simp_all

lemma shader_call_only:
  "shader_call x \<Longrightarrow> \<not> pipeline_call x \<and> \<not> binding_call x \<and> \<not> submit_call x \<and> \<not> log_line x"
  by (cases x) simp_all

text \<open>The calls of \<^verbatim>\<open>Render\<close> are those of the shader block, then calls of the later
  blocks.\<close>

lemma later_calls:
  "\<forall>x \<in> set (snd (make_descriptor c entity g w0)). \<not> shader_call x \<and> \<not> submit_call x"
  "\<forall>x \<in> set (emitted (bind_uniforms c this us l buf)). \<not> shader_call x \<and> \<not> submit_call x"
  using make_descriptor_trace [of c entity g w0] bind_uniforms_emitted [of c this us l buf]
    log_line_only binding_call_only by blast+

lemma Render_trace_split:
  "\<exists>rest. trace (Render c this entity w) = trace (get_or_register_shader c w) @ rest
          \<and> (\<forall>x \<in> set rest. \<not> shader_call x)"
  using later_calls(1) [of c entity "render_geometry c entity w"
      "(shader_state c w)\<lparr>pass := geometry_pass c entity w\<rparr>"]
    later_calls(2) [of c this "GetUniforms (runtime_stage w)"]
  by (auto simp add: Render_unfold Let_def submit_trace pipeline_trace_def bound_trace_def
      render_binding_def split: Flow.split option.split)

lemma get_or_register_shader_needs:
  "needs_registration w \<Longrightarrow>
   get_or_register_shader c w =
     (outcome (register_shader c (final (lookup_shader w))),
      final (register_shader c (final (lookup_shader w))),
      trace (lookup_shader w) @ trace (register_shader c (final (lookup_shader w))))"
  "\<not> needs_registration w \<Longrightarrow> get_or_register_shader c w = (Continue, w, [])"
  by (auto simp add: get_or_register_shader_unfold lookup_shader_None_iff needs_registration_def)

lemma lookup_shader_entry:
  "GetEntrypoint (runtime_stage (final (lookup_shader w))) = GetEntrypoint (runtime_stage w)"
  "GetShaderStage (runtime_stage (final (lookup_shader w))) = GetShaderStage (runtime_stage w)"
  "GetCodeMapping (runtime_stage (final (lookup_shader w))) = GetCodeMapping (runtime_stage w)"
  by (simp_all add: lookup_shader_keeps)

lemma register_shader_cases:
  "fst (registration c w) = None \<Longrightarrow>
   register_shader c (final (lookup_shader w)) =
     (Crash RegistrationNeverCompletes,
      (final (lookup_shader w))\<lparr>library := snd (registration c w)\<rparr>,
      [CallRegisterFunction (GetEntrypoint (runtime_stage w)) (GetShaderStage (runtime_stage w))])"
  "fst (registration c w) = Some False \<Longrightarrow>
   register_shader c (final (lookup_shader w)) =
     (Return False,
      (final (lookup_shader w))\<lparr>library := snd (registration c w)\<rparr>,
      [CallRegisterFunction (GetEntrypoint (runtime_stage w)) (GetShaderStage (runtime_stage w)),
       VALIDATION_LOG (''Failed to build runtime effect (entry point: ''
                       @ GetEntrypoint (runtime_stage w) @ '')'')])"
  "fst (registration c w) = Some True \<Longrightarrow>
   GetFunction (snd (registration c w)) (GetEntrypoint (runtime_stage w)) kFragment = None \<Longrightarrow>
   register_shader c (final (lookup_shader w)) =
     (Return False,
      (final (lookup_shader w))\<lparr>library := snd (registration c w)\<rparr>,
      [CallRegisterFunction (GetEntrypoint (runtime_stage w)) (GetShaderStage (runtime_stage w)),
       VALIDATION_LOG (''Failed to fetch runtime effect function immediately after ''
                       @ ''registering it (entry point: '' @ GetEntrypoint (runtime_stage w)
                       @ '')'')])"
  "fst (registration c w) = Some True \<Longrightarrow>
   GetFunction (snd (registration c w)) (GetEntrypoint (runtime_stage w)) kFragment = Some f \<Longrightarrow>
   register_shader c (final (lookup_shader w)) =
     (Continue,
      (final (lookup_shader w))
        \<lparr>library := snd (registration c w), runtime_stage := SetClean (runtime_stage w)\<rparr>,
      [CallRegisterFunction (GetEntrypoint (runtime_stage w)) (GetShaderStage (runtime_stage w)),
       CallSetClean])"
  by (simp_all add: register_shader_def registration_def lookup_shader_keeps Let_def
      case_prod_beta)

lemma shader_block_runs:
  "needs_registration w \<Longrightarrow> fst (registration c w) = None \<Longrightarrow>
   get_or_register_shader c w =
     (Crash RegistrationNeverCompletes,
      (final (lookup_shader w))\<lparr>library := snd (registration c w)\<rparr>,
      trace (lookup_shader w)
      @ [CallRegisterFunction (GetEntrypoint (runtime_stage w)) (GetShaderStage (runtime_stage w))])"
  "needs_registration w \<Longrightarrow> fst (registration c w) = Some False \<Longrightarrow>
   get_or_register_shader c w =
     (Return False,
      (final (lookup_shader w))\<lparr>library := snd (registration c w)\<rparr>,
      trace (lookup_shader w)
      @ [CallRegisterFunction (GetEntrypoint (runtime_stage w)) (GetShaderStage (runtime_stage w)),
         VALIDATION_LOG (''Failed to build runtime effect (entry point: ''
                         @ GetEntrypoint (runtime_stage w) @ '')'')])"
  "needs_registration w \<Longrightarrow> fst (registration c w) = Some True \<Longrightarrow>
   GetFunction (snd (registration c w)) (GetEntrypoint (runtime_stage w)) kFragment = None \<Longrightarrow>
   get_or_register_shader c w =
     (Return False,
      (final (lookup_shader w))\<lparr>library := snd (registration c w)\<rparr>,
      trace (lookup_shader w)
      @ [CallRegisterFunction (GetEntrypoint (runtime_stage w)) (GetShaderStage (runtime_stage w)),
         VALIDATION_LOG (''Failed to fetch runtime effect function immediately after ''
                         @ ''registering it (entry point: '' @ GetEntrypoint (runtime_stage w)
                         @ '')'')])"
  "needs_registration w \<Longrightarrow> fst (registration c w) = Some True \<Longrightarrow>
   GetFunction (snd (registration c w)) (GetEntrypoint (runtime_stage w)) kFragment = Some f \<Longrightarrow>
   get_or_register_shader c w =
     (Continue,
      (final (lookup_shader w))
        \<lparr>library := snd (registration c w), runtime_stage := SetClean (runtime_stage w)\<rparr>,
      trace (lookup_shader w)
      @ [CallRegisterFunction (GetEntrypoint (runtime_stage w)) (GetShaderStage (runtime_stage w)),
         CallSetClean])"
  by (simp_all add: get_or_register_shader_needs(1) register_shader_cases)

lemma lookup_shader_no_set_clean: "CallSetClean \<notin> set (trace (lookup_shader w))"
  by (simp add: lookup_shader_def Let_def split: option.splits)

lemma lookup_shader_no_pipeline_call: "filter pipeline_call (trace (lookup_shader w)) = []"
  by (simp add: lookup_shader_def Let_def split: option.splits)

text \<open>
  C4: when the fragment function is not in the library, or was evicted because the stage is
  dirty, and the backend compiler reports that the registration failed, \<^verbatim>\<open>Render\<close> logs the
  diagnostic with the entry point and returns false. Its calls are those of the lookup, the
  registration and the log line: no pipeline lookup or build. The pipeline cache gains no
  entry, the library is the one the compiler left, the stage is not marked clean, and the
  pass is untouched.
\<close>

theorem registration_failure_returns_false:
  assumes "needs_registration w" and "fst (registration c w) = Some False"
  shows "outcome (Render c this entity w) = Inr False
         \<and> trace (Render c this entity w) =
             trace (lookup_shader w)
             @ [CallRegisterFunction (GetEntrypoint (runtime_stage w))
                  (GetShaderStage (runtime_stage w)),
                VALIDATION_LOG (''Failed to build runtime effect (entry point: ''
                                @ GetEntrypoint (runtime_stage w) @ '')'')]
         \<and> filter pipeline_call (trace (Render c this entity w)) = []
         \<and> pipelines (final (Render c this entity w)) = pipelines (final (lookup_shader w))
         \<and> set (pipelines (final (Render c this entity w))) \<subseteq> set (pipelines w)
         \<and> library (final (Render c this entity w)) = snd (registration c w)
         \<and> runtime_stage (final (Render c this entity w)) = runtime_stage w
         \<and> pass (final (Render c this entity w)) = pass w"
proof -
  have run: "Render c this entity w =
               (Inr False,
                (final (lookup_shader w))\<lparr>library := snd (registration c w)\<rparr>,
                trace (lookup_shader w)
                @ [CallRegisterFunction (GetEntrypoint (runtime_stage w))
                     (GetShaderStage (runtime_stage w)),
                   VALIDATION_LOG (''Failed to build runtime effect (entry point: ''
                                   @ GetEntrypoint (runtime_stage w) @ '')'')])"
    using shader_block_runs(2) [OF assms] by (simp add: Render_unfold shader_state_def)
  show ?thesis
    using lookup_shader_keeps [of w] lookup_shader_no_pipeline_call [of w]
    by (simp add: run)
qed

text \<open>
  C5: \<^verbatim>\<open>SetClean\<close> is called exactly when a registration was requested, the backend compiler
  reported success and the function was then found under the key (entry point, fragment) of
  the first lookup. When the compiler reported success and the function is not found,
  \<^verbatim>\<open>Render\<close> logs the diagnostic and returns false, and the stage is as it was. When it is
  found, the stage is marked clean. In every other run the stage is as it was.
\<close>

theorem set_clean_only_after_fetch:
  "(CallSetClean \<in> set (trace (Render c this entity w)) \<longleftrightarrow>
      needs_registration w \<and> fst (registration c w) = Some True
      \<and> GetFunction (snd (registration c w)) (GetEntrypoint (runtime_stage w)) kFragment \<noteq> None)
   \<and> (needs_registration w \<and> fst (registration c w) = Some True
       \<and> GetFunction (snd (registration c w)) (GetEntrypoint (runtime_stage w)) kFragment = None
       \<longrightarrow> outcome (Render c this entity w) = Inr False
           \<and> trace (Render c this entity w) =
               trace (lookup_shader w)
               @ [CallRegisterFunction (GetEntrypoint (runtime_stage w))
                    (GetShaderStage (runtime_stage w)),
                  VALIDATION_LOG (''Failed to fetch runtime effect function immediately after ''
                                  @ ''registering it (entry point: ''
                                  @ GetEntrypoint (runtime_stage w) @ '')'')])
   \<and> runtime_stage (final (Render c this entity w)) =
       (if needs_registration w \<and> fst (registration c w) = Some True
           \<and> GetFunction (snd (registration c w)) (GetEntrypoint (runtime_stage w)) kFragment
               \<noteq> None
        then SetClean (runtime_stage w) else runtime_stage w)"
proof -
  obtain rest where rest:
    "trace (Render c this entity w) = trace (get_or_register_shader c w) @ rest"
    "\<forall>x \<in> set rest. \<not> shader_call x"
    using Render_trace_split by blast
  have "CallSetClean \<notin> set rest"
    using rest(2) by force
  then have mem: "CallSetClean \<in> set (trace (Render c this entity w)) \<longleftrightarrow>
                  CallSetClean \<in> set (trace (get_or_register_shader c w))"
    by (simp add: rest(1))
  have stage: "runtime_stage (final (Render c this entity w))
                 = runtime_stage (final (get_or_register_shader c w))"
    by (simp add: Render_keeps shader_state_def)
  show ?thesis
  proof (cases "needs_registration w")
    case False
    then show ?thesis
      by (simp add: mem stage get_or_register_shader_needs(2))
  next
    case True
    note needs = this
    show ?thesis
    proof (cases "fst (registration c w)")
      case None
      then show ?thesis
        using lookup_shader_no_set_clean [of w] lookup_shader_keeps(1) [of w]
        by (simp add: mem stage shader_block_runs(1) [OF needs None])
    next
      case (Some ok)
      show ?thesis
      proof (cases ok)
        case False
        with Some have failed: "fst (registration c w) = Some False" by simp
        show ?thesis
          using lookup_shader_no_set_clean [of w] lookup_shader_keeps(1) [of w]
          by (simp add: mem stage shader_block_runs(2) [OF needs failed] failed)
      next
        case True
        with Some have ok: "fst (registration c w) = Some True" by simp
        show ?thesis
        proof (cases "GetFunction (snd (registration c w)) (GetEntrypoint (runtime_stage w))
                        kFragment")
          case None
          have run: "Render c this entity w =
               (Inr False,
                (final (lookup_shader w))\<lparr>library := snd (registration c w)\<rparr>,
                trace (get_or_register_shader c w))"
            by (simp add: Render_unfold shader_state_def shader_block_runs(3) [OF needs ok None])
          show ?thesis
            using lookup_shader_no_set_clean [of w] lookup_shader_keeps(1) [of w]
            by (simp add: run needs ok None shader_block_runs(3) [OF needs ok None])
        next
          case (Some f)
          show ?thesis
            by (simp add: mem stage needs ok Some shader_block_runs(4) [OF needs ok Some])
        qed
      qed
    qed
  qed
qed

theorem registration_failure_returns_false_witness:
  "needs_registration ex_unregistered
   \<and> fst (registration ex_failing ex_unregistered) = Some False
   \<and> outcome (Render ex_failing ex_contents ex_entity ex_unregistered) = Inr False
   \<and> trace (Render ex_failing ex_contents ex_entity ex_unregistered) =
       [CallRegisterFunction ''main'' kFragment,
        VALIDATION_LOG ''Failed to build runtime effect (entry point: main)'']
   \<and> pipelines (final (Render ex_failing ex_contents ex_entity ex_unregistered)) = []"
proof -
  have h1: "needs_registration ex_unregistered"
    by (simp add: needs_registration_def ex_unregistered_def ex_world_def ex_stage_def
        GetFunction_def)
  have h2: "fst (registration ex_failing ex_unregistered) = Some False"
    by (simp add: registration_def ex_failing_def ex_backend_def)
  have l: "lookup_shader ex_unregistered = (None, ex_unregistered, [])"
    by (simp add: lookup_shader_def ex_unregistered_def ex_world_def ex_stage_def GetFunction_def)
  have e: "GetEntrypoint (runtime_stage ex_unregistered) = ''main''"
    "GetShaderStage (runtime_stage ex_unregistered) = kFragment"
    "pipelines ex_unregistered = []"
    by (simp_all add: ex_unregistered_def ex_world_def ex_stage_def)
  show ?thesis
    using h1 h2 registration_failure_returns_false [OF h1 h2, of ex_contents ex_entity]
    by (simp add: l e)
qed

theorem set_clean_only_after_fetch_witness:
  "outcome (Render ex_backend ex_contents ex_entity ex_vertex_stage) = Inr False
   \<and> CallSetClean \<notin> set (trace (Render ex_backend ex_contents ex_entity ex_vertex_stage))
   \<and> runtime_stage (final (Render ex_backend ex_contents ex_entity ex_vertex_stage))
       = runtime_stage ex_vertex_stage
   \<and> CallSetClean \<in> set (trace (Render ex_backend ex_contents ex_entity ex_unregistered))
   \<and> \<not> IsDirty (runtime_stage (final (Render ex_backend ex_contents ex_entity ex_unregistered)))"
proof -
  have v: "needs_registration ex_vertex_stage"
    "fst (registration ex_backend ex_vertex_stage) = Some True"
    "GetFunction (snd (registration ex_backend ex_vertex_stage))
       (GetEntrypoint (runtime_stage ex_vertex_stage)) kFragment = None"
    by (simp_all add: needs_registration_def registration_def lookup_shader_def
        ex_vertex_stage_def ex_unregistered_def ex_world_def ex_stage_def ex_backend_def
        GetFunction_def)
  have u: "needs_registration ex_unregistered"
    "fst (registration ex_backend ex_unregistered) = Some True"
    "GetFunction (snd (registration ex_backend ex_unregistered))
       (GetEntrypoint (runtime_stage ex_unregistered)) kFragment \<noteq> None"
    by (simp_all add: needs_registration_def registration_def lookup_shader_def
        ex_unregistered_def ex_world_def ex_stage_def ex_backend_def GetFunction_def)
  show ?thesis
    using v u set_clean_only_after_fetch [of ex_backend ex_contents ex_entity ex_vertex_stage]
      set_clean_only_after_fetch [of ex_backend ex_contents ex_entity ex_unregistered]
    by (simp add: SetClean_def lookup_shader_no_set_clean)
qed

subsection \<open>Submission\<close>

lemma filter_none: "(\<forall>x \<in> set xs. \<not> P x) \<Longrightarrow> filter P xs = []"
  by (induction xs) simp_all

lemma shader_trace_classes:
  "filter submit_call (trace (get_or_register_shader c w)) = []"
  "filter pipeline_call (trace (get_or_register_shader c w)) = []"
  "filter binding_call (trace (get_or_register_shader c w)) = []"
  using get_or_register_shader_trace [of c w] shader_call_only log_line_only
  by (blast intro: filter_none)+

lemma descriptor_trace_classes:
  "filter submit_call (snd (make_descriptor c entity g w)) = []"
  "filter pipeline_call (snd (make_descriptor c entity g w)) = []"
  "filter shader_call (snd (make_descriptor c entity g w)) = []"
  using make_descriptor_trace [of c entity g w] log_line_only
  by (blast intro: filter_none)+

lemma binding_trace_classes:
  "filter submit_call (emitted (bind_uniforms c this us l buf)) = []"
  "filter pipeline_call (emitted (bind_uniforms c this us l buf)) = []"
  "filter shader_call (emitted (bind_uniforms c this us l buf)) = []"
  using bind_uniforms_emitted [of c this us l buf] binding_call_only log_line_only
  by (blast intro: filter_none)+

lemma pipeline_trace_classes:
  "filter submit_call (pipeline_trace c entity w) = []"
  "filter pipeline_call (pipeline_trace c entity w) = [CallGetPipeline (render_descriptor c entity w)]"
  by (simp_all add: pipeline_trace_def shader_trace_classes descriptor_trace_classes)

lemma bound_trace_classes:
  "filter submit_call (bound_trace c this entity w pl) = []"
  "filter pipeline_call (bound_trace c this entity w pl)
     = [CallGetPipeline (render_descriptor c entity w)]"
  by (simp_all add: bound_trace_def render_binding_def pipeline_trace_classes
      binding_trace_classes)

lemma submit_run:
  "submit c entity g command w =
     (if prevent_overdraw g
      then (Inr (fst (ClipRestoreRender c entity (AddCommand command (pass w)))),
            w\<lparr>pass := snd (ClipRestoreRender c entity (AddCommand command (pass w)))\<rparr>,
            [CallAddCommand command, CallClipRestoreRender entity])
      else (Inr True, w\<lparr>pass := AddCommand command (pass w)\<rparr>, [CallAddCommand command]))"
  by (simp add: submit_def Let_def case_prod_beta)

text \<open>A run of \<^verbatim>\<open>Render\<close> that adds a command to the pass is a run through the pipeline
  lookup and the whole loop, and ends in lines 212--217.\<close>

lemma Render_submitted:
  assumes "CallAddCommand command \<in> set (trace (Render c this entity w))"
  shows "\<exists>pl. outcome (get_or_register_shader c w) = Continue
              \<and> render_pipeline c entity w = Some pl
              \<and> flow (render_binding c this entity w pl) = Continue
              \<and> command = cmd (locals (render_binding c this entity w pl))
              \<and> Render c this entity w =
                  (outcome (submit c entity (render_geometry c entity w) command
                              (bound_state c this entity w pl)),
                   final (submit c entity (render_geometry c entity w) command
                            (bound_state c this entity w pl)),
                   bound_trace c this entity w pl
                   @ trace (submit c entity (render_geometry c entity w) command
                              (bound_state c this entity w pl)))"
proof -
  have no: "CallAddCommand command \<notin> set t" if "filter submit_call t = []" for t
    using that by (metis filter_empty_conv submit_call.simps(1))
  have a: "CallAddCommand command \<notin> set (trace (get_or_register_shader c w))"
    "CallAddCommand command \<notin> set (pipeline_trace c entity w)"
    "\<And>pl. CallAddCommand command \<notin> set (bound_trace c this entity w pl)"
    by (rule no, simp add: shader_trace_classes pipeline_trace_classes bound_trace_classes)+
  show ?thesis
    using assms a
    by (auto simp add: Render_unfold Let_def submit_run split: Flow.splits option.splits if_splits)
qed

lemmas render_defs =
  Render_def get_or_register_shader_def lookup_shader_def register_shader_def
  render_with_shader_def make_descriptor_def render_options_def draw_def submit_def
  GetPipeline_def GetFunction_def ApplyToPipelineDescriptor_def AddCommand_def
  kEntrypointName_def Let_def

lemmas ex_defs =
  ex_backend_def ex_overdraw_def ex_failing_def ex_contents_def ex_entity_def ex_world_def
  ex_stage_def ex_uniform_def ex_unregistered_def ex_vertex_stage_def ex_locals_def
  ex_command_def ex_inputs_fail_def ex_stale_def ex_reregister_def

lemma render_descriptor_stencil:
  "desc_stencil_compare (render_descriptor c entity w)
     = stencil_compare (render_options_of c entity w)"
  "desc_stencil_operation (render_descriptor c entity w)
     = stencil_operation (render_options_of c entity w)"
  "desc_primitive_type (render_descriptor c entity w)
     = primitive_type (render_options_of c entity w)"
  by (simp_all add: render_descriptor_def render_options_of_def make_descriptor_def
      ApplyToPipelineDescriptor_def Let_def case_prod_beta)

lemma Render_pipeline_calls:
  "CallAddCommand command \<in> set (trace (Render c this entity w)) \<Longrightarrow>
   filter pipeline_call (trace (Render c this entity w))
     = [CallGetPipeline (render_descriptor c entity w)]"
  by (drule Render_submitted) (auto simp add: bound_trace_classes submit_run)

text \<open>
  C6: in a run of \<^verbatim>\<open>Render\<close> that adds its command to the pass, the one pipeline lookup is
  for the descriptor built from the options of lines 122--127. When the geometry has
  \<^verbatim>\<open>prevent_overdraw\<close>, these options and the descriptor have the stencil compare function
  equal and the stencil operation increment-clamp, and the submissions of the run are the
  command and then one clip-restore draw for the same entity, on the pass that holds the
  command. When it has not, the stencil options are those of \<^verbatim>\<open>OptionsFromPassAndEntity\<close>
  and the only submission is the command.
\<close>

theorem overdraw_stencil_and_clip_restore:
  assumes "CallAddCommand command \<in> set (trace (Render c this entity w))"
  shows "filter pipeline_call (trace (Render c this entity w))
           = [CallGetPipeline (render_descriptor c entity w)]
         \<and> (prevent_overdraw (render_geometry c entity w) \<longrightarrow>
              stencil_compare (render_options_of c entity w) = kEqual
              \<and> stencil_operation (render_options_of c entity w) = kIncrementClamp
              \<and> desc_stencil_compare (render_descriptor c entity w) = kEqual
              \<and> desc_stencil_operation (render_descriptor c entity w) = kIncrementClamp
              \<and> filter submit_call (trace (Render c this entity w))
                  = [CallAddCommand command, CallClipRestoreRender entity]
              \<and> (\<exists>p. commands p = commands (geometry_pass c entity w)
                      \<and> pass (final (Render c this entity w))
                          = snd (ClipRestoreRender c entity (AddCommand command p))))
         \<and> (\<not> prevent_overdraw (render_geometry c entity w) \<longrightarrow>
              stencil_compare (render_options_of c entity w)
                = stencil_compare (OptionsFromPassAndEntity c (geometry_pass c entity w) entity)
              \<and> stencil_operation (render_options_of c entity w)
                  = stencil_operation (OptionsFromPassAndEntity c (geometry_pass c entity w) entity)
              \<and> desc_stencil_compare (render_descriptor c entity w)
                  = stencil_compare (OptionsFromPassAndEntity c (geometry_pass c entity w) entity)
              \<and> desc_stencil_operation (render_descriptor c entity w)
                  = stencil_operation (OptionsFromPassAndEntity c (geometry_pass c entity w) entity)
              \<and> filter submit_call (trace (Render c this entity w)) = [CallAddCommand command]
              \<and> (\<exists>p. commands p = commands (geometry_pass c entity w)
                      \<and> pass (final (Render c this entity w)) = AddCommand command p))"
proof -
  obtain pl where run:
    "Render c this entity w =
       (outcome (submit c entity (render_geometry c entity w) command
                   (bound_state c this entity w pl)),
        final (submit c entity (render_geometry c entity w) command
                 (bound_state c this entity w pl)),
        bound_trace c this entity w pl
        @ trace (submit c entity (render_geometry c entity w) command
                   (bound_state c this entity w pl)))"
    using Render_submitted [OF assms] by blast
  have p: "commands (pass (bound_state c this entity w pl)) = commands (geometry_pass c entity w)"
    by (simp add: bound_state_def)
  have options:
    "prevent_overdraw (render_geometry c entity w) \<Longrightarrow>
       stencil_compare (render_options_of c entity w) = kEqual
       \<and> stencil_operation (render_options_of c entity w) = kIncrementClamp"
    "\<not> prevent_overdraw (render_geometry c entity w) \<Longrightarrow>
       stencil_compare (render_options_of c entity w)
         = stencil_compare (OptionsFromPassAndEntity c (geometry_pass c entity w) entity)
       \<and> stencil_operation (render_options_of c entity w)
           = stencil_operation (OptionsFromPassAndEntity c (geometry_pass c entity w) entity)"
    by (simp_all add: render_options_of_def render_options_def Let_def)
  have calls: "filter pipeline_call (trace (Render c this entity w))
                 = [CallGetPipeline (render_descriptor c entity w)]"
    using Render_pipeline_calls [OF assms] .
  have on: ?thesis if "prevent_overdraw (render_geometry c entity w)"
    using that options(1) [OF that] p calls
    by (auto simp add: run submit_run bound_trace_classes render_descriptor_stencil
        simp del: bound_state_keeps)
  have off: ?thesis if "\<not> prevent_overdraw (render_geometry c entity w)"
    using that options(2) [OF that] p calls
    by (auto simp add: run submit_run bound_trace_classes render_descriptor_stencil
        simp del: bound_state_keeps)
  from on off show ?thesis by blast
qed

text \<open>
  C9: in a run of \<^verbatim>\<open>Render\<close> that adds its command to the pass and whose geometry has
  \<^verbatim>\<open>prevent_overdraw\<close>, the result is the result of the clip-restore draw, which runs on
  the pass that already holds the command: a failing clip-restore draw makes \<^verbatim>\<open>Render\<close>
  return false after the command was submitted.
\<close>

theorem result_is_clip_restore_result:
  assumes "CallAddCommand command \<in> set (trace (Render c this entity w))"
    and "prevent_overdraw (render_geometry c entity w)"
  shows "\<exists>p pre. commands p = commands (geometry_pass c entity w)
           \<and> outcome (Render c this entity w)
               = Inr (fst (ClipRestoreRender c entity (AddCommand command p)))
           \<and> pass (final (Render c this entity w))
               = snd (ClipRestoreRender c entity (AddCommand command p))
           \<and> trace (Render c this entity w)
               = pre @ [CallAddCommand command, CallClipRestoreRender entity]"
proof -
  obtain pl where run:
    "Render c this entity w =
       (outcome (submit c entity (render_geometry c entity w) command
                   (bound_state c this entity w pl)),
        final (submit c entity (render_geometry c entity w) command
                 (bound_state c this entity w pl)),
        bound_trace c this entity w pl
        @ trace (submit c entity (render_geometry c entity w) command
                   (bound_state c this entity w pl)))"
    using Render_submitted [OF assms(1)] by blast
  have p: "commands (pass (bound_state c this entity w pl)) = commands (geometry_pass c entity w)"
    by (simp add: bound_state_def)
  show ?thesis
    using assms(2) p by (auto simp add: run submit_run simp del: bound_state_keeps)
qed

lemma ex_overdraw_run:
  "CallAddCommand ex_command
     \<in> set (trace (Render ex_overdraw ex_contents ex_entity
                     (ex_world [ex_uniform ''a'' 0 kFloat] False)))"
  "prevent_overdraw (render_geometry ex_overdraw ex_entity
                       (ex_world [ex_uniform ''a'' 0 kFloat] False))"
  by (simp_all add: render_defs bind_defs ex_defs render_geometry_def)

lemma ex_backend_run:
  "CallAddCommand ex_command
     \<in> set (trace (Render ex_backend ex_contents ex_entity
                     (ex_world [ex_uniform ''a'' 0 kFloat] False)))"
  "\<not> prevent_overdraw (render_geometry ex_backend ex_entity
                         (ex_world [ex_uniform ''a'' 0 kFloat] False))"
  by (simp_all add: render_defs bind_defs ex_defs render_geometry_def)

theorem overdraw_stencil_and_clip_restore_witness:
  "CallAddCommand ex_command
     \<in> set (trace (Render ex_overdraw ex_contents ex_entity
                     (ex_world [ex_uniform ''a'' 0 kFloat] False)))
   \<and> prevent_overdraw (render_geometry ex_overdraw ex_entity
                         (ex_world [ex_uniform ''a'' 0 kFloat] False))
   \<and> desc_stencil_compare (render_descriptor ex_overdraw ex_entity
                              (ex_world [ex_uniform ''a'' 0 kFloat] False)) = kEqual
   \<and> desc_stencil_operation (render_descriptor ex_overdraw ex_entity
                                (ex_world [ex_uniform ''a'' 0 kFloat] False)) = kIncrementClamp
   \<and> filter submit_call (trace (Render ex_overdraw ex_contents ex_entity
                                   (ex_world [ex_uniform ''a'' 0 kFloat] False)))
       = [CallAddCommand ex_command, CallClipRestoreRender ex_entity]
   \<and> CallAddCommand ex_command
       \<in> set (trace (Render ex_backend ex_contents ex_entity
                       (ex_world [ex_uniform ''a'' 0 kFloat] False)))
   \<and> \<not> prevent_overdraw (render_geometry ex_backend ex_entity
                           (ex_world [ex_uniform ''a'' 0 kFloat] False))
   \<and> desc_stencil_compare (render_descriptor ex_backend ex_entity
                              (ex_world [ex_uniform ''a'' 0 kFloat] False)) = kAlways
   \<and> filter submit_call (trace (Render ex_backend ex_contents ex_entity
                                   (ex_world [ex_uniform ''a'' 0 kFloat] False)))
       = [CallAddCommand ex_command]"
proof -
  have d: "stencil_compare (OptionsFromPassAndEntity ex_backend p ex_entity) = kAlways" for p
    by (simp add: ex_backend_def)
  show ?thesis
    using ex_overdraw_run ex_backend_run
      overdraw_stencil_and_clip_restore [OF ex_overdraw_run(1)]
      overdraw_stencil_and_clip_restore [OF ex_backend_run(1)]
    by (simp add: d)
qed

theorem result_is_clip_restore_result_witness:
  "CallAddCommand ex_command
     \<in> set (trace (Render ex_overdraw ex_contents ex_entity
                     (ex_world [ex_uniform ''a'' 0 kFloat] False)))
   \<and> prevent_overdraw (render_geometry ex_overdraw ex_entity
                         (ex_world [ex_uniform ''a'' 0 kFloat] False))
   \<and> outcome (Render ex_overdraw ex_contents ex_entity
                 (ex_world [ex_uniform ''a'' 0 kFloat] False)) = Inr False
   \<and> commands (pass (final (Render ex_overdraw ex_contents ex_entity
                               (ex_world [ex_uniform ''a'' 0 kFloat] False))))
       = [ex_command]"
proof -
  have clip: "ClipRestoreRender ex_overdraw entity p = (False, p)" for entity p
    by (simp add: ex_overdraw_def ex_backend_def)
  have g: "commands (geometry_pass ex_overdraw ex_entity
                       (ex_world [ex_uniform ''a'' 0 kFloat] False)) = []"
    by (simp add: geometry_pass_def ex_overdraw_def ex_backend_def ex_world_def)
  show ?thesis
    using ex_overdraw_run
      result_is_clip_restore_result [OF ex_overdraw_run]
    by (auto simp add: clip g AddCommand_def)
qed

subsection \<open>The transient buffer\<close>

lemma round_up_dvd:
  fixes a n :: nat
  assumes "0 < a"
  shows "a dvd (if n mod a = 0 then n else n + (a - n mod a))"
proof (cases "n mod a = 0")
  case True
  then show ?thesis by auto
next
  case False
  have "n mod a \<le> n" by simp
  moreover have "n mod a < a" using assms by simp
  ultimately have eq: "n + (a - n mod a) = (n - n mod a) + a" by simp
  have "a dvd n - n mod a" by (rule dvd_minus_mod)
  then have "a dvd (n - n mod a) + a" by (rule dvd_add) (rule dvd_refl)
  then have "a dvd n + (a - n mod a)" by (simp only: eq)
  then show ?thesis using False by (simp only: if_False)
qed

lemma Emplace_aligned:
  "0 < a \<Longrightarrow> a dvd view_offset (fst (Emplace bytes a buf))"
  using round_up_dvd [of a "length buf"]
  by (simp add: Emplace_def Let_def split: if_splits)

lemma Emplace_view:
  "view_length (fst (Emplace bytes a buf)) = length bytes"
  "take (length bytes) (drop (view_offset (fst (Emplace bytes a buf))) (snd (Emplace bytes a buf)))
     = bytes"
  by (simp_all add: Emplace_def Let_def)

lemma bind_float_in_range:
  assumes "location u * 4 + GetSize u \<le> length (uniform_data this)"
    and "length (uniform_data this) < 2 ^ 64"
  shows "bind_float c this u l buf =
           (Continue,
            BindResource
              (BindUniform kFragment \<lparr>uniform_name = name u, ext_res_0 = buffer_index l\<rparr>
                 (fst (Emplace (float_slice this u) (float_alignment c u) buf))) l,
            snd (Emplace (float_slice this u) (float_alignment c u) buf),
            [CallEmplace (float_slice this u) (GetSize u) (float_alignment c u)])"
proof -
  have "location u * 4 < 2 ^ 64" using assms by simp
  then have m: "(location u * 4) mod 2 ^ 64 = location u * 4" by simp
  show ?thesis
    using assms(1) m
    by (simp add: bind_float_def float_slice_def float_alignment_def Let_def case_prod_beta)
qed

text \<open>
  C7: a float entry whose bytes, from offset \<^verbatim>\<open>location * 4\<close> for its size, lie in the uniform
  data is bound to a view of the transient buffer that holds exactly these bytes. The slice
  is emplaced with the alignment \<^verbatim>\<open>max(bit_width / 8, DefaultUniformAlignment())\<close>, the
  view's offset is a multiple of that alignment when it is not zero, and for a bit width of
  32 it is a multiple of \<^verbatim>\<open>max(4, DefaultUniformAlignment())\<close>.
\<close>

theorem float_uniform_slice_and_alignment:
  assumes "type u = kFloat"
    and "location u * 4 + GetSize u \<le> length (uniform_data this)"
    and "length (uniform_data this) < 2 ^ 64"
  shows "bind_uniform c this u l buf =
           (Continue,
            BindResource
              (BindUniform kFragment \<lparr>uniform_name = name u, ext_res_0 = buffer_index l\<rparr>
                 (fst (Emplace (float_slice this u) (float_alignment c u) buf))) l,
            snd (Emplace (float_slice this u) (float_alignment c u) buf),
            [CallEmplace (float_slice this u) (GetSize u) (float_alignment c u)])
         \<and> view_length (fst (Emplace (float_slice this u) (float_alignment c u) buf)) = GetSize u
         \<and> take (GetSize u)
              (drop (view_offset (fst (Emplace (float_slice this u) (float_alignment c u) buf)))
                 (buffer (bind_uniform c this u l buf)))
             = float_slice this u
         \<and> (0 < float_alignment c u \<longrightarrow>
              float_alignment c u
                dvd view_offset (fst (Emplace (float_slice this u) (float_alignment c u) buf)))
         \<and> (bit_width u = 32 \<longrightarrow>
              max 4 (DefaultUniformAlignment c)
                dvd view_offset (fst (Emplace (float_slice this u) (float_alignment c u) buf)))"
proof -
  have run: "bind_uniform c this u l buf =
           (Continue,
            BindResource
              (BindUniform kFragment \<lparr>uniform_name = name u, ext_res_0 = buffer_index l\<rparr>
                 (fst (Emplace (float_slice this u) (float_alignment c u) buf))) l,
            snd (Emplace (float_slice this u) (float_alignment c u) buf),
            [CallEmplace (float_slice this u) (GetSize u) (float_alignment c u)])"
    using bind_float_in_range [OF assms(2,3)] assms(1) by (simp add: bind_uniform_def)
  have len: "length (float_slice this u) = GetSize u"
    using assms(2) by (simp add: float_slice_def)
  have a32: "float_alignment c u = max 4 (DefaultUniformAlignment c)" if "bit_width u = 32"
    using that by (simp add: float_alignment_def)
  have pos: "0 < max 4 (DefaultUniformAlignment c)" by simp
  show ?thesis
    using Emplace_view [of "float_slice this u" "float_alignment c u" buf]
      Emplace_aligned [of "float_alignment c u" "float_slice this u" buf]
      Emplace_aligned [OF pos, of "float_slice this u" buf]
    by (simp add: run len a32)
qed

theorem float_uniform_slice_and_alignment_witness:
  "type ex_float = kFloat
   \<and> location ex_float * 4 + GetSize ex_float
       \<le> length (uniform_data ex_contents)
   \<and> length (uniform_data ex_contents) < 2 ^ 64
   \<and> bit_width ex_float = 32
   \<and> float_slice ex_contents ex_float = [5, 6, 7, 8]
   \<and> flow (bind_uniform ex_backend ex_contents ex_float ex_locals [1, 2, 3])
       = Continue
   \<and> view_offset (fst (Emplace (float_slice ex_contents ex_float)
                          (float_alignment ex_backend ex_float) [1, 2, 3]))
       = 16
   \<and> max 4 (DefaultUniformAlignment ex_backend)
       dvd view_offset (fst (Emplace (float_slice ex_contents ex_float)
                               (float_alignment ex_backend ex_float)
                               [1, 2, 3]))"
proof -
  have h: "type ex_float = kFloat"
    "location ex_float * 4 + GetSize ex_float
       \<le> length (uniform_data ex_contents)"
    "length (uniform_data ex_contents) < 2 ^ 64"
    by (simp_all add: ex_float_def ex_uniform_def ex_contents_def)
  have v: "bit_width ex_float = 32"
    "float_slice ex_contents ex_float = [5, 6, 7, 8]"
    "float_alignment ex_backend ex_float = 16"
    by (simp_all add: ex_float_def ex_uniform_def ex_contents_def ex_backend_def float_slice_def
        float_alignment_def)
  have off: "view_offset (fst (Emplace [5, 6, 7, 8] 16 [1, 2, 3])) = 16"
    by (simp add: Emplace_def)
  show ?thesis
    using h v(1) float_uniform_slice_and_alignment [OF h, of ex_backend ex_locals "[1, 2, 3]"]
    by (simp add: v(2,3) off)
qed

subsection \<open>The loop on entries it can bind\<close>

lemma bind_uniforms_append:
  "bind_uniforms c this (us @ vs) l buf =
     (if flow (bind_uniforms c this us l buf) = Continue
      then (let b = bind_uniforms c this us l buf;
                r = bind_uniforms c this vs (locals b) (buffer b)
            in (flow r, locals r, buffer r, emitted b @ emitted r))
      else bind_uniforms c this us l buf)"
proof (induction us arbitrary: l buf)
  case Nil
  show ?case by simp
next
  case (Cons u us)
  show ?case
    by (simp add: bind_uniforms_step Cons.IH Let_def del: bind_uniforms.simps)
qed

lemma bind_uniform_unsupported:
  "unsupported u \<Longrightarrow>
   bind_uniform c this u l buf =
     (Return True, l, buf, [VALIDATION_LOG (''Unsupported uniform type for '' @ name u @ ''.'')])"
  by (cases "type u") (simp_all add: unsupported_def bind_uniform_def unsupported_uniform_def)

lemma bind_uniform_bindable:
  assumes "bindable this u"
    and "sampler_index l + (if type u = kSampledImage then 1 else 0) \<le> length (texture_inputs this)"
  shows "flow (bind_uniform c this u l buf) = Continue
         \<and> buffer_index (locals (bind_uniform c this u l buf)) = buffer_index l
         \<and> sampler_index (locals (bind_uniform c this u l buf))
             = sampler_index l + (if type u = kSampledImage then 1 else 0)
         \<and> (\<exists>x. bindings (cmd (locals (bind_uniform c this u l buf))) = bindings (cmd l) @ [x]
                \<and> bound_at this u (buffer_index l) (sampler_index l) x)"
proof (cases "type u = kSampledImage")
  case True
  with assms(2) show ?thesis
    by (simp add: bind_uniform_def bind_sampled_image_def BindResource_def Let_def)
next
  case False
  with assms(1) have f: "type u = kFloat" "float_in_range this u"
    by (simp_all add: bindable_def)
  show ?thesis
    using f
    by (simp add: bind_uniform_def bind_float_def BindResource_def Let_def case_prod_beta
        float_in_range_def Emplace_def)
qed

lemma bind_uniforms_bindable:
  assumes "\<forall>u \<in> set us. bindable this u"
    and "sampler_index l + num_sampled us \<le> length (texture_inputs this)"
  shows "flow (bind_uniforms c this us l buf) = Continue
         \<and> buffer_index (locals (bind_uniforms c this us l buf)) = buffer_index l + length us
         \<and> sampler_index (locals (bind_uniforms c this us l buf))
             = sampler_index l + num_sampled us
         \<and> (\<exists>bs. bindings (cmd (locals (bind_uniforms c this us l buf))) = bindings (cmd l) @ bs
                 \<and> length bs = length us
                 \<and> (\<forall>i < length us.
                       bound_at this (us ! i) (buffer_index l + i)
                         (sampler_index l + num_sampled (take i us)) (bs ! i)))"
  using assms
proof (induction us arbitrary: l buf)
  case Nil
  show ?case by simp
next
  case (Cons u us)
  let ?b = "bind_uniform c this u l buf"
  let ?l = "(locals ?b)\<lparr>buffer_index := buffer_index (locals ?b) + 1\<rparr>"
  let ?r = "bind_uniforms c this us ?l (buffer ?b)"
  have u: "bindable this u" and us: "\<forall>v \<in> set us. bindable this v"
    using Cons.prems(1) by simp_all
  have room: "sampler_index l + (if type u = kSampledImage then 1 else 0)
                \<le> length (texture_inputs this)"
    using Cons.prems(2) by simp
  from bind_uniform_bindable [OF u room, of c buf] obtain x where
    step: "flow ?b = Continue" "buffer_index (locals ?b) = buffer_index l"
      "sampler_index (locals ?b) = sampler_index l + (if type u = kSampledImage then 1 else 0)"
      "bindings (cmd (locals ?b)) = bindings (cmd l) @ [x]"
      "bound_at this u (buffer_index l) (sampler_index l) x"
    by blast
  have room': "sampler_index ?l + num_sampled us \<le> length (texture_inputs this)"
    using Cons.prems(2) step(3) by simp
  from Cons.IH [OF us room', of "buffer ?b"] obtain bs where
    rest: "flow ?r = Continue" "buffer_index (locals ?r) = buffer_index ?l + length us"
      "sampler_index (locals ?r) = sampler_index ?l + num_sampled us"
      "bindings (cmd (locals ?r)) = bindings (cmd ?l) @ bs" "length bs = length us"
      "\<forall>i < length us. bound_at this (us ! i) (buffer_index ?l + i)
                          (sampler_index ?l + num_sampled (take i us)) (bs ! i)"
    by blast
  have whole: "bind_uniforms c this (u # us) l buf
                 = (flow ?r, locals ?r, buffer ?r, emitted ?b @ emitted ?r)"
    using step(1) by (simp add: bind_uniforms_step Let_def del: bind_uniforms.simps)
  have each: "bound_at this ((u # us) ! i) (buffer_index l + i)
                (sampler_index l + num_sampled (take i (u # us))) ((x # bs) ! i)"
    if "i < length (u # us)" for i
  proof (cases i)
    case 0
    with step(5) show ?thesis by simp
  next
    case (Suc j)
    with that have "j < length us" by simp
    with rest(6) have "bound_at this (us ! j) (buffer_index ?l + j)
                         (sampler_index ?l + num_sampled (take j us)) (bs ! j)"
      by blast
    then show ?thesis
      using Suc step(2,3) by (simp add: add.assoc)
  qed
  have "bindings (cmd (locals ?r)) = bindings (cmd l) @ (x # bs)"
    using rest(4) step(4) by simp
  moreover have "length (x # bs) = length (u # us)"
    using rest(5) by simp
  ultimately have ex: "\<exists>bs'. bindings (cmd (locals ?r)) = bindings (cmd l) @ bs'
                        \<and> length bs' = length (u # us)
                        \<and> (\<forall>i < length (u # us).
                              bound_at this ((u # us) ! i) (buffer_index l + i)
                                (sampler_index l + num_sampled (take i (u # us))) (bs' ! i))"
    using each by blast
  show ?case
    unfolding whole using rest(1,2,3) step(2,3) ex by simp
qed

lemma bindable_length:
  "\<forall>u \<in> set us. bindable this u \<Longrightarrow> length us = num_sampled us + num_float us"
  by (induction us) (auto simp add: bindable_def num_float_def num_sampled_def)

text \<open>
  C3: on a layout of sampled-image and float entries only, in any order, with a texture
  input for every sampled-image entry and the bytes of every float entry in the uniform
  data, the loop started with both counters at 0 runs to its end; \<^verbatim>\<open>buffer_index\<close> is then
  the number of sampled-image entries plus the number of float entries and
  \<^verbatim>\<open>sampler_index\<close> the number of sampled-image entries. Entry \<open>i\<close> added one binding to
  the command: a sampled image with texture index and sampler index both the number of
  sampled-image entries before it, or a float at the buffer slot \<open>i\<close>.
\<close>

theorem slot_indices_after_binding:
  assumes "\<forall>u \<in> set us. bindable this u"
    and "num_sampled us \<le> length (texture_inputs this)"
    and "buffer_index l = 0" and "sampler_index l = 0"
  shows "flow (bind_uniforms c this us l buf) = Continue
         \<and> buffer_index (locals (bind_uniforms c this us l buf)) = num_sampled us + num_float us
         \<and> sampler_index (locals (bind_uniforms c this us l buf)) = num_sampled us
         \<and> (\<exists>bs. bindings (cmd (locals (bind_uniforms c this us l buf))) = bindings (cmd l) @ bs
                 \<and> length bs = length us
                 \<and> (\<forall>i < length us.
                       bound_at this (us ! i) i (num_sampled (take i us)) (bs ! i)))"
proof -
  have room: "sampler_index l + num_sampled us \<le> length (texture_inputs this)"
    using assms(2,4) by simp
  show ?thesis
    using bind_uniforms_bindable [OF assms(1) room, of c buf] bindable_length [OF assms(1)]
      assms(3,4)
    by simp
qed

theorem slot_indices_after_binding_witness:
  "num_sampled ex_interleaved = 1 \<and> num_float ex_interleaved = 2
   \<and> flow (bind_uniforms ex_backend ex_contents ex_interleaved ex_locals []) = Continue
   \<and> buffer_index (locals (bind_uniforms ex_backend ex_contents ex_interleaved ex_locals [])) = 3
   \<and> sampler_index (locals (bind_uniforms ex_backend ex_contents ex_interleaved ex_locals [])) = 1"
proof -
  have n: "num_sampled ex_interleaved = 1" "num_float ex_interleaved = 2"
    by (simp_all add: ex_interleaved_def ex_uniform_def num_float_def num_sampled_def)
  have h: "\<forall>u \<in> set ex_interleaved. bindable ex_contents u"
    "num_sampled ex_interleaved \<le> length (texture_inputs ex_contents)"
    "buffer_index ex_locals = 0" "sampler_index ex_locals = 0"
    by (simp_all add: n, simp_all add: ex_interleaved_def ex_uniform_def ex_contents_def
        ex_locals_def bindable_def float_in_range_def)
  show ?thesis
    using slot_indices_after_binding [OF h, of ex_backend "[]"] by (simp add: n)
qed

text \<open>
  C1 as the spec states it: the layout [float, boolean, float] is a run of \<^verbatim>\<open>Render\<close>
  that returns true and leaves the pass without a command.
\<close>

theorem unsupported_uniform_command_not_submitted:
  "outcome (Render ex_backend ex_contents ex_entity ex_truncated) = Inr True
   \<and> filter submit_call (trace (Render ex_backend ex_contents ex_entity ex_truncated)) = []
   \<and> commands (pass (final (Render ex_backend ex_contents ex_entity ex_truncated))) = []
   \<and> VALIDATION_LOG ''Unsupported uniform type for flag.''
       \<in> set (trace (Render ex_backend ex_contents ex_entity ex_truncated))"
  by (simp add: render_defs bind_defs ex_defs ex_truncated_def)

text \<open>
  C1, amended: when the layout has an entry of an unsupported kind after entries that the
  loop binds, the loop started with \<^verbatim>\<open>sampler_index = 0\<close> ends at that entry with the
  result true, the locals and the transient buffer as the entries before it left them, and
  the diagnostic naming the entry as its last call: no later entry is processed.
  \<^verbatim>\<open>Render\<close> then adds no command to the pass and issues no clip-restore draw, whatever the
  earlier blocks did; when the shader block and the pipeline lookup succeed it returns
  true, its last call is the diagnostic, and the pass has the commands it had after the
  geometry was resolved.
\<close>

theorem unsupported_uniform_aborts_binding:
  assumes "GetUniforms (runtime_stage w) = pre @ u # post"
    and "\<forall>v \<in> set pre. bindable this v"
    and "num_sampled pre \<le> length (texture_inputs this)"
    and "unsupported u"
  shows "(\<forall>l buf. sampler_index l = 0 \<longrightarrow>
            bind_uniforms c this (pre @ u # post) l buf =
              (Return True, locals (bind_uniforms c this pre l buf),
               buffer (bind_uniforms c this pre l buf),
               emitted (bind_uniforms c this pre l buf)
               @ [VALIDATION_LOG (''Unsupported uniform type for '' @ name u @ ''.'')])
            \<and> length (bindings (cmd (locals (bind_uniforms c this (pre @ u # post) l buf))))
                = length (bindings (cmd l)) + length pre)
         \<and> filter submit_call (trace (Render c this entity w)) = []
         \<and> (outcome (get_or_register_shader c w) = Continue
             \<and> render_pipeline c entity w \<noteq> None \<longrightarrow>
               outcome (Render c this entity w) = Inr True
               \<and> last (trace (Render c this entity w))
                   = VALIDATION_LOG (''Unsupported uniform type for '' @ name u @ ''.'')
               \<and> commands (pass (final (Render c this entity w)))
                   = commands (geometry_pass c entity w))"
proof -
  have loop: "bind_uniforms c this (pre @ u # post) l buf =
                (Return True, locals (bind_uniforms c this pre l buf),
                 buffer (bind_uniforms c this pre l buf),
                 emitted (bind_uniforms c this pre l buf)
                 @ [VALIDATION_LOG (''Unsupported uniform type for '' @ name u @ ''.'')])
              \<and> length (bindings (cmd (locals (bind_uniforms c this (pre @ u # post) l buf))))
                  = length (bindings (cmd l)) + length pre"
    if "sampler_index l = 0" for l buf
  proof -
    have room: "sampler_index l + num_sampled pre \<le> length (texture_inputs this)"
      using assms(3) that by simp
    from bind_uniforms_bindable [OF assms(2) room, of c buf] obtain bs where
      pre: "flow (bind_uniforms c this pre l buf) = Continue"
        "bindings (cmd (locals (bind_uniforms c this pre l buf))) = bindings (cmd l) @ bs"
        "length bs = length pre"
      by blast
    show ?thesis
      using pre
      by (simp add: bind_uniforms_append bind_uniforms_step bind_uniform_unsupported [OF assms(4)]
          Let_def del: bind_uniforms.simps)
  qed
  have bound: "render_binding c this entity w pl =
                 (Return True,
                  locals (bind_uniforms c this pre (initial_locals c entity w pl)
                            (snd (EmplaceUniform c (transform (render_geometry c entity w))
                                    (transients (geometry_pass c entity w))))),
                  buffer (bind_uniforms c this pre (initial_locals c entity w pl)
                            (snd (EmplaceUniform c (transform (render_geometry c entity w))
                                    (transients (geometry_pass c entity w))))),
                  emitted (bind_uniforms c this pre (initial_locals c entity w pl)
                             (snd (EmplaceUniform c (transform (render_geometry c entity w))
                                     (transients (geometry_pass c entity w)))))
                  @ [VALIDATION_LOG (''Unsupported uniform type for '' @ name u @ ''.'')])" for pl
    unfolding render_binding_def assms(1) using loop [of "initial_locals c entity w pl"] by simp
  have submitted: "filter submit_call (trace (Render c this entity w)) = []"
    by (simp add: Render_unfold bound shader_trace_classes pipeline_trace_classes
        bound_trace_classes split: Flow.split option.split)
  have reached: "outcome (Render c this entity w) = Inr True
                 \<and> last (trace (Render c this entity w))
                     = VALIDATION_LOG (''Unsupported uniform type for '' @ name u @ ''.'')
                 \<and> commands (pass (final (Render c this entity w)))
                     = commands (geometry_pass c entity w)"
    if "outcome (get_or_register_shader c w) = Continue" "render_pipeline c entity w \<noteq> None"
    using that by (auto simp add: Render_unfold bound bound_trace_def bound_state_def)
  show ?thesis
    using loop submitted reached by blast
qed

theorem unsupported_uniform_aborts_binding_witness:
  "outcome (Render ex_backend ex_contents ex_entity ex_truncated) = Inr True
   \<and> filter submit_call (trace (Render ex_backend ex_contents ex_entity ex_truncated)) = []
   \<and> last (trace (Render ex_backend ex_contents ex_entity ex_truncated))
       = VALIDATION_LOG ''Unsupported uniform type for flag.''
   \<and> flow (bind_uniforms ex_backend ex_contents (GetUniforms (runtime_stage ex_truncated))
              ex_locals []) = Return True
   \<and> length (bindings (cmd (locals (bind_uniforms ex_backend ex_contents
                                        (GetUniforms (runtime_stage ex_truncated)) ex_locals []))))
       = 1"
proof -
  have h: "GetUniforms (runtime_stage ex_truncated)
             = [ex_uniform ''a'' 0 kFloat] @ ex_uniform ''flag'' 1 kBoolean # [ex_float]"
    "\<forall>v \<in> set [ex_uniform ''a'' 0 kFloat]. bindable ex_contents v"
    "num_sampled [ex_uniform ''a'' 0 kFloat] \<le> length (texture_inputs ex_contents)"
    "unsupported (ex_uniform ''flag'' 1 kBoolean)"
    by (simp_all add: ex_truncated_def ex_world_def ex_stage_def ex_float_def ex_uniform_def
        ex_contents_def bindable_def float_in_range_def unsupported_def)
  have reach: "outcome (get_or_register_shader ex_backend ex_truncated) = Continue"
    "render_pipeline ex_backend ex_entity ex_truncated \<noteq> None"
    by (simp_all add: render_pipeline_def render_descriptor_def shader_state_def
        render_geometry_def geometry_pass_def render_defs ex_defs ex_truncated_def)
  have l: "sampler_index ex_locals = 0" "bindings (cmd ex_locals) = []"
    by (simp_all add: ex_locals_def)
  have n: "name (ex_uniform ''flag'' 1 kBoolean) = ''flag''"
    by (simp add: ex_uniform_def)
  note t = unsupported_uniform_aborts_binding [OF h, of ex_backend ex_entity]
  have r: "outcome (Render ex_backend ex_contents ex_entity ex_truncated) = Inr True
           \<and> last (trace (Render ex_backend ex_contents ex_entity ex_truncated))
               = VALIDATION_LOG (''Unsupported uniform type for ''
                                 @ name (ex_uniform ''flag'' 1 kBoolean) @ ''.'')"
    using t reach by blast
  have f: "filter submit_call (trace (Render ex_backend ex_contents ex_entity ex_truncated)) = []"
    using t by blast
  have b: "bind_uniforms ex_backend ex_contents
             ([ex_uniform ''a'' 0 kFloat] @ ex_uniform ''flag'' 1 kBoolean # [ex_float])
             ex_locals [] =
              (Return True,
               locals (bind_uniforms ex_backend ex_contents [ex_uniform ''a'' 0 kFloat]
                         ex_locals []),
               buffer (bind_uniforms ex_backend ex_contents [ex_uniform ''a'' 0 kFloat]
                         ex_locals []),
               emitted (bind_uniforms ex_backend ex_contents [ex_uniform ''a'' 0 kFloat]
                          ex_locals [])
               @ [VALIDATION_LOG (''Unsupported uniform type for ''
                                  @ name (ex_uniform ''flag'' 1 kBoolean) @ ''.'')])
            \<and> length (bindings (cmd (locals (bind_uniforms ex_backend ex_contents
                 ([ex_uniform ''a'' 0 kFloat] @ ex_uniform ''flag'' 1 kBoolean # [ex_float])
                 ex_locals []))))
                = length (bindings (cmd ex_locals)) + length [ex_uniform ''a'' 0 kFloat]"
    using t l(1) by blast
  have c4: "flow (bind_uniforms ex_backend ex_contents
                    ([ex_uniform ''a'' 0 kFloat] @ ex_uniform ''flag'' 1 kBoolean # [ex_float])
                    ex_locals []) = Return True"
    by (simp only: b [THEN conjunct1] fst_conv)
  have c5: "length (bindings (cmd (locals (bind_uniforms ex_backend ex_contents
                 ([ex_uniform ''a'' 0 kFloat] @ ex_uniform ''flag'' 1 kBoolean # [ex_float])
                 ex_locals [])))) = 1"
    by (simp only: b [THEN conjunct2] l(2) list.size)
  have c3: "last (trace (Render ex_backend ex_contents ex_entity ex_truncated))
               = VALIDATION_LOG ''Unsupported uniform type for flag.''"
    using r by (simp add: ex_uniform_def)
  show ?thesis
    unfolding h(1) using r [THEN conjunct1] f c3 c4 c5 by blast
qed

subsection \<open>The result of applying the stage inputs\<close>

lemma bind_uniform_stage_inputs:
  "bind_uniform (c\<lparr>SetStageInputs := x\<rparr>) this u l buf = bind_uniform c this u l buf"
  by (cases "type u") (simp_all add: bind_defs)

lemma bind_uniforms_stage_inputs:
  "bind_uniforms (c\<lparr>SetStageInputs := x\<rparr>) this us l buf = bind_uniforms c this us l buf"
  by (induction us arbitrary: l buf)
    (simp_all add: bind_uniform_stage_inputs split: prod.split Flow.split)

lemma shader_block_stage_inputs:
  "get_or_register_shader (c\<lparr>SetStageInputs := x\<rparr>) w = get_or_register_shader c w"
  by (simp add: get_or_register_shader_def register_shader_def split: prod.split option.split)

lemma pieces_stage_inputs:
  "shader_state (c\<lparr>SetStageInputs := x\<rparr>) w = shader_state c w"
  "render_geometry (c\<lparr>SetStageInputs := x\<rparr>) entity w = render_geometry c entity w"
  "geometry_pass (c\<lparr>SetStageInputs := x\<rparr>) entity w = geometry_pass c entity w"
  "submit (c\<lparr>SetStageInputs := x\<rparr>) entity g command w0 = submit c entity g command w0"
  by (simp_all add: shader_state_def shader_block_stage_inputs render_geometry_def
      geometry_pass_def submit_def Let_def case_prod_beta)

lemma descriptor_stage_inputs:
  "snd x = snd (SetStageInputs c) \<Longrightarrow>
   render_descriptor (c\<lparr>SetStageInputs := x\<rparr>) entity w = render_descriptor c entity w"
  by (simp add: render_descriptor_def pieces_stage_inputs make_descriptor_def render_options_def
      Let_def case_prod_beta)

lemma pipeline_stage_inputs:
  assumes "snd x = snd (SetStageInputs c)"
  shows "render_pipeline (c\<lparr>SetStageInputs := x\<rparr>) entity w = render_pipeline c entity w"
    and "pipeline_state (c\<lparr>SetStageInputs := x\<rparr>) entity w = pipeline_state c entity w"
  by (simp_all add: render_pipeline_def pipeline_state_def pieces_stage_inputs
      descriptor_stage_inputs [OF assms] GetPipeline_def split: option.split)

lemma binding_stage_inputs:
  assumes "snd x = snd (SetStageInputs c)"
  shows "render_binding (c\<lparr>SetStageInputs := x\<rparr>) this entity w pl
           = render_binding c this entity w pl"
    and "bound_state (c\<lparr>SetStageInputs := x\<rparr>) this entity w pl
           = bound_state c this entity w pl"
proof -
  show b: "render_binding (c\<lparr>SetStageInputs := x\<rparr>) this entity w pl
             = render_binding c this entity w pl"
    by (simp add: render_binding_def initial_locals_def pieces_stage_inputs
        bind_uniforms_stage_inputs)
  show "bound_state (c\<lparr>SetStageInputs := x\<rparr>) this entity w pl
          = bound_state c this entity w pl"
    by (simp add: bound_state_def b pieces_stage_inputs pipeline_stage_inputs [OF assms])
qed

lemma stage_inputs_logged:
  "\<not> fst (SetStageInputs c) \<Longrightarrow>
   VALIDATION_LOG ''Failed to set stage inputs for runtime effect pipeline.''
     \<in> set (pipeline_trace c entity w)"
  by (simp add: pipeline_trace_def make_descriptor_def Let_def case_prod_beta)

lemma Render_pipeline_lookup:
  "outcome (get_or_register_shader c w) = Continue \<Longrightarrow>
   \<exists>rest. trace (Render c this entity w) = pipeline_trace c entity w @ rest
          \<and> filter pipeline_call rest = []"
  by (auto simp add: Render_unfold Let_def bound_trace_def render_binding_def
      binding_trace_classes submit_run split: Flow.split option.split)

text \<open>
  C8: when applying the stage inputs to the vertex descriptor fails, \<^verbatim>\<open>Render\<close> has the same
  result and leaves the same state as if the call had succeeded with the same descriptor:
  the failure decides nothing but the log. Once the shader block is passed, the diagnostic
  is logged and the run goes on to its one pipeline lookup, for the descriptor with the
  vertex descriptor as the failed call left it.
\<close>

theorem stage_inputs_failure_is_not_fatal:
  assumes "\<not> fst (SetStageInputs c)"
  shows "outcome (Render c this entity w)
           = outcome (Render (c\<lparr>SetStageInputs := (True, snd (SetStageInputs c))\<rparr>) this entity w)
         \<and> final (Render c this entity w)
             = final (Render (c\<lparr>SetStageInputs := (True, snd (SetStageInputs c))\<rparr>) this entity w)
         \<and> (outcome (get_or_register_shader c w) = Continue \<longrightarrow>
               VALIDATION_LOG ''Failed to set stage inputs for runtime effect pipeline.''
                 \<in> set (trace (Render c this entity w))
               \<and> filter pipeline_call (trace (Render c this entity w))
                   = [CallGetPipeline (render_descriptor c entity w)]
               \<and> desc_vertex_descriptor (render_descriptor c entity w) = snd (SetStageInputs c))"
proof -
  let ?c = "c\<lparr>SetStageInputs := (True, snd (SetStageInputs c))\<rparr>"
  have s: "snd (True, snd (SetStageInputs c)) = snd (SetStageInputs c)" by simp
  have same: "outcome (Render c this entity w) = outcome (Render ?c this entity w)
              \<and> final (Render c this entity w) = final (Render ?c this entity w)"
    by (simp add: Render_unfold shader_block_stage_inputs pieces_stage_inputs
        pipeline_stage_inputs [OF s] binding_stage_inputs [OF s] Let_def
        split: Flow.split option.split)
  have goes_on: "VALIDATION_LOG ''Failed to set stage inputs for runtime effect pipeline.''
                   \<in> set (trace (Render c this entity w))
                 \<and> filter pipeline_call (trace (Render c this entity w))
                     = [CallGetPipeline (render_descriptor c entity w)]
                 \<and> desc_vertex_descriptor (render_descriptor c entity w) = snd (SetStageInputs c)"
    if reach: "outcome (get_or_register_shader c w) = Continue"
  proof -
    obtain rest where rest: "trace (Render c this entity w) = pipeline_trace c entity w @ rest"
      "filter pipeline_call rest = []"
      using Render_pipeline_lookup [OF reach] by blast
    have "desc_vertex_descriptor (render_descriptor c entity w) = snd (SetStageInputs c)"
      by (simp add: render_descriptor_def make_descriptor_def ApplyToPipelineDescriptor_def
          Let_def case_prod_beta)
    then show ?thesis
      using stage_inputs_logged [OF assms, of entity w]
      by (simp add: rest pipeline_trace_classes)
  qed
  show ?thesis
    using same goes_on by blast
qed

theorem stage_inputs_failure_is_not_fatal_witness:
  "\<not> fst (SetStageInputs ex_inputs_fail)
   \<and> outcome (get_or_register_shader ex_inputs_fail (ex_world [ex_float] False)) = Continue
   \<and> outcome (Render ex_inputs_fail ex_contents ex_entity (ex_world [ex_float] False)) = Inr True
   \<and> VALIDATION_LOG ''Failed to set stage inputs for runtime effect pipeline.''
       \<in> set (trace (Render ex_inputs_fail ex_contents ex_entity (ex_world [ex_float] False)))"
proof -
  have h: "\<not> fst (SetStageInputs ex_inputs_fail)"
    by (simp add: ex_inputs_fail_def)
  have reach: "outcome (get_or_register_shader ex_inputs_fail (ex_world [ex_float] False))
                 = Continue"
    by (simp add: render_defs ex_defs)
  have other: "outcome (Render (ex_inputs_fail\<lparr>SetStageInputs :=
                                   (True, snd (SetStageInputs ex_inputs_fail))\<rparr>)
                          ex_contents ex_entity (ex_world [ex_float] False)) = Inr True"
    by (simp add: render_defs bind_defs ex_defs ex_float_def)
  show ?thesis
    using h reach other
      stage_inputs_failure_is_not_fatal [OF h, of ex_contents ex_entity "ex_world [ex_float] False"]
    by simp
qed

subsection \<open>Eviction\<close>

lemma register_shader_first_call:
  "\<exists>t. trace (register_shader c w)
         = CallRegisterFunction (GetEntrypoint (runtime_stage w)) (GetShaderStage (runtime_stage w))
           # t"
  by (simp add: register_shader_def Let_def case_prod_beta split: option.split)

lemma evicted_lookup:
  "references d f \<Longrightarrow> map_of (RemovePipelinesWithEntryPoint f cache) d = None"
  by (auto simp add: RemovePipelinesWithEntryPoint_def map_of_eq_None_iff)

lemma evicted_entries:
  "map_of (RemovePipelinesWithEntryPoint f cache) d = Some p
   \<Longrightarrow> (d, p) \<in> set cache \<and> \<not> references d f"
  by (auto simp add: RemovePipelinesWithEntryPoint_def dest: map_of_SomeD)

lemma unregistered_lookup:
  "GetFunction (UnregisterFunction lib entrypoint stage) entrypoint stage = None"
  by (auto simp add: GetFunction_def UnregisterFunction_def map_of_eq_None_iff)

lemma GetPipeline_miss:
  "map_of cache d = None \<Longrightarrow> fst (GetPipeline c d cache) = BuildPipeline c d"
  by (simp add: GetPipeline_def split: option.split)

lemma GetPipeline_source:
  "fst (GetPipeline c d cache) = Some p \<Longrightarrow> map_of cache d = Some p \<or> BuildPipeline c d = Some p"
  by (auto simp add: GetPipeline_def split: option.splits)

lemma bind_uniform_pipeline:
  "pipeline (cmd (locals (bind_uniform c this u l buf))) = pipeline (cmd l)"
  by (cases "type u") (simp_all add: bind_defs case_prod_beta)

lemma bind_uniforms_pipeline:
  "pipeline (cmd (locals (bind_uniforms c this us l buf))) = pipeline (cmd l)"
proof (induction us arbitrary: l buf)
  case Nil
  show ?case by simp
next
  case (Cons u us)
  show ?case
    by (simp add: bind_uniforms_step Let_def Cons.IH bind_uniform_pipeline
        del: bind_uniforms.simps)
qed

lemma render_binding_pipeline:
  "pipeline (cmd (locals (render_binding c this entity w pl))) = pl"
  by (simp add: render_binding_def bind_uniforms_pipeline initial_locals_def BindResource_def)

lemma shader_state_pipelines:
  "pipelines (shader_state c w) = pipelines (final (lookup_shader w))"
  by (simp add: shader_state_def get_or_register_shader_unfold register_shader_keeps
      lookup_shader_def Let_def split: option.split)

text \<open>
  C2: when the fragment function is in the library and the stage is dirty, the first calls
  of \<^verbatim>\<open>Render\<close> are the removal of the pipelines with that function, the unregistration
  and the request of a new registration, so that they come before any pipeline lookup.
  After them the function is no longer found under its key, and the cache that the
  pipeline lookup sees holds no descriptor referencing the function: a lookup of such a
  descriptor is a build. The pipeline of a command that the run adds to the pass is either
  an entry the cache had for a descriptor not referencing the function, or one built by the
  backend.
\<close>

theorem dirty_stage_evicts_before_lookup:
  assumes "GetFunction (library w) (GetEntrypoint (runtime_stage w)) kFragment = Some f"
    and "IsDirty (runtime_stage w)"
  shows "(\<exists>rest. trace (Render c this entity w) =
            [CallRemovePipelinesWithEntryPoint f,
             CallUnregisterFunction (GetEntrypoint (runtime_stage w)) kFragment,
             CallRegisterFunction (GetEntrypoint (runtime_stage w))
               (GetShaderStage (runtime_stage w))] @ rest)
         \<and> pipelines (shader_state c w) = RemovePipelinesWithEntryPoint f (pipelines w)
         \<and> GetFunction (library (final (lookup_shader w))) (GetEntrypoint (runtime_stage w))
              kFragment = None
         \<and> (\<forall>d. references d f \<longrightarrow>
               map_of (pipelines (shader_state c w)) d = None
               \<and> fst (GetPipeline c d (pipelines (shader_state c w))) = BuildPipeline c d)
         \<and> (\<forall>command. CallAddCommand command \<in> set (trace (Render c this entity w)) \<longrightarrow>
               (\<exists>d. (d, pipeline command) \<in> set (pipelines w) \<and> \<not> references d f)
               \<or> (\<exists>d. BuildPipeline c d = Some (pipeline command)))"
proof -
  note look = lookup_shader_dirty [OF assms]
  have needs: "needs_registration w"
    using assms(2) by (simp add: needs_registration_def)
  obtain t where t: "trace (register_shader c (final (lookup_shader w)))
                       = CallRegisterFunction (GetEntrypoint (runtime_stage w))
                           (GetShaderStage (runtime_stage w)) # t"
    using register_shader_first_call [of c "final (lookup_shader w)"]
    by (auto simp add: lookup_shader_keeps)
  obtain rest where rest: "trace (Render c this entity w)
                             = trace (get_or_register_shader c w) @ rest"
    using Render_trace_split by blast
  have first: "\<exists>rest. trace (Render c this entity w) =
            [CallRemovePipelinesWithEntryPoint f,
             CallUnregisterFunction (GetEntrypoint (runtime_stage w)) kFragment,
             CallRegisterFunction (GetEntrypoint (runtime_stage w))
               (GetShaderStage (runtime_stage w))] @ rest"
    using t by (simp add: rest get_or_register_shader_needs(1) [OF needs] look)
  have cache: "pipelines (shader_state c w) = RemovePipelinesWithEntryPoint f (pipelines w)"
    by (simp add: shader_state_pipelines look)
  have gone: "GetFunction (library (final (lookup_shader w))) (GetEntrypoint (runtime_stage w))
                kFragment = None"
    by (simp add: look unregistered_lookup)
  have miss: "map_of (pipelines (shader_state c w)) d = None
              \<and> fst (GetPipeline c d (pipelines (shader_state c w))) = BuildPipeline c d"
    if "references d f" for d
    using evicted_lookup [OF that, of "pipelines w"] by (simp add: cache GetPipeline_miss)
  have drawn: "(\<exists>d. (d, pipeline command) \<in> set (pipelines w) \<and> \<not> references d f)
               \<or> (\<exists>d. BuildPipeline c d = Some (pipeline command))"
    if added: "CallAddCommand command \<in> set (trace (Render c this entity w))" for command
  proof -
    from Render_submitted [OF added] obtain pl where
      pl: "render_pipeline c entity w = Some pl"
        "command = cmd (locals (render_binding c this entity w pl))"
      by blast
    have "pipeline command = pl"
      by (simp add: pl(2) render_binding_pipeline)
    moreover have "map_of (RemovePipelinesWithEntryPoint f (pipelines w))
                     (render_descriptor c entity w) = Some pl
                   \<or> BuildPipeline c (render_descriptor c entity w) = Some pl"
      using pl(1) GetPipeline_source [of c "render_descriptor c entity w"
          "pipelines (shader_state c w)" pl]
      by (simp add: render_pipeline_def cache)
    ultimately show ?thesis
      using evicted_entries by blast
  qed
  show ?thesis
    using first cache gone miss drawn by blast
qed

theorem dirty_stage_evicts_before_lookup_witness:
  "GetFunction (library ex_stale) (GetEntrypoint (runtime_stage ex_stale)) kFragment = Some 3
   \<and> IsDirty (runtime_stage ex_stale)
   \<and> map snd (pipelines ex_stale) = [41]
   \<and> take 3 (trace (Render ex_reregister ex_contents ex_entity ex_stale))
       = [CallRemovePipelinesWithEntryPoint 3,
          CallUnregisterFunction ''main'' kFragment,
          CallRegisterFunction ''main'' kFragment]
   \<and> pipelines (shader_state ex_reregister ex_stale) = []
   \<and> map pipeline (commands (pass (final (Render ex_reregister ex_contents ex_entity ex_stale))))
       = [42]"
proof -
  have h: "GetFunction (library ex_stale) (GetEntrypoint (runtime_stage ex_stale)) kFragment
             = Some 3"
    "IsDirty (runtime_stage ex_stale)"
    by (simp_all add: ex_stale_def ex_world_def ex_stage_def GetFunction_def)
  have e: "GetEntrypoint (runtime_stage ex_stale) = ''main''"
    "GetShaderStage (runtime_stage ex_stale) = kFragment"
    "map snd (pipelines ex_stale) = [41]"
    "RemovePipelinesWithEntryPoint 3 (pipelines ex_stale) = []"
    by (simp_all add: ex_stale_def ex_world_def ex_stage_def RemovePipelinesWithEntryPoint_def
        references_def)
  have drawn: "map pipeline
                 (commands (pass (final (Render ex_reregister ex_contents ex_entity ex_stale))))
               = [42]"
    by (simp add: render_defs bind_defs ex_defs RemovePipelinesWithEntryPoint_def
        UnregisterFunction_def references_def SetClean_def)
  note t = dirty_stage_evicts_before_lookup [OF h, of ex_reregister ex_contents ex_entity]
  from t obtain rest where
    "trace (Render ex_reregister ex_contents ex_entity ex_stale) =
       [CallRemovePipelinesWithEntryPoint 3,
        CallUnregisterFunction (GetEntrypoint (runtime_stage ex_stale)) kFragment,
        CallRegisterFunction (GetEntrypoint (runtime_stage ex_stale))
          (GetShaderStage (runtime_stage ex_stale))] @ rest"
    by blast
  then have first: "take 3 (trace (Render ex_reregister ex_contents ex_entity ex_stale))
       = [CallRemovePipelinesWithEntryPoint 3,
          CallUnregisterFunction ''main'' kFragment,
          CallRegisterFunction ''main'' kFragment]"
    by (simp add: e)
  from t have "pipelines (shader_state ex_reregister ex_stale)
                 = RemovePipelinesWithEntryPoint 3 (pipelines ex_stale)"
    by blast
  then have cache: "pipelines (shader_state ex_reregister ex_stale) = []"
    by (simp add: e)
  show ?thesis
    using h e(3) first cache drawn by blast
qed

end
